theory Spec2Isabelle
  imports Complex_Main "HOL-Library.Word"
begin

section \<open>Characters, strings and numbers of the JavaScript sources\<close>

text \<open>
  A JavaScript string is a sequence of UTF-16 code units, and \<open>line[x]\<close> and
  \<open>charCodeAt(0)\<close> read one code unit. A character is therefore a 16-bit word, and a
  string a list of them. ASCII characters are written \<open>ch CHR ''A''\<close>, the others by
  their code (\<open>0x2588\<close> is the full block U+2588).

  A JavaScript number is a double. Where the code only counts (lengths, indices,
  brightness values from 0 to 255) the numbers are \<open>nat\<close> and \<open>int\<close>. Where the
  configuration may hold any number (pixel size, scale, font metrics) they are values of
  a type \<open>'n\<close> that comes with the operations of the language, handed to every function
  that computes with them, so that what is proved holds for the arithmetic of doubles,
  with its rounding, its infinities and its \<open>NaN\<close>.
\<close>

type_synonym jschar = "16 word"
type_synonym jsstring = "jschar list"

abbreviation ch :: "char \<Rightarrow> jschar" where
  "ch c \<equiv> of_char c"

definition js :: "string \<Rightarrow> jsstring" where
  "js s = map of_char s"

text \<open>A run of statements \<open>map[k] = v;\<close> in source order: a later one overwrites.\<close>

definition assign :: "('k \<rightharpoonup> 'v) \<Rightarrow> ('k \<times> 'v) list \<Rightarrow> ('k \<rightharpoonup> 'v)" where
  "assign m kvs = foldl (\<lambda>m (k, v). m(k \<mapsto> v)) m kvs"

text \<open>
  The operations on numbers that the sources use: the number written by a numeral or
  read by \<open>parseFloat\<close> (\<open>js_lit\<close>, from the value the digits denote), \<open>+\<close>, \<open>-\<close>,
  \<open>*\<close>, \<open>/\<close>, \<open>%\<close>, \<open>Math.min\<close>, \<open>Math.ceil\<close>, and the test that \<open>||\<close> makes
  (0 and \<open>NaN\<close> are falsy).
\<close>

record 'n arith =
  js_lit :: "real \<Rightarrow> 'n"
  js_add :: "'n \<Rightarrow> 'n \<Rightarrow> 'n"
  js_sub :: "'n \<Rightarrow> 'n \<Rightarrow> 'n"
  js_mul :: "'n \<Rightarrow> 'n \<Rightarrow> 'n"
  js_div :: "'n \<Rightarrow> 'n \<Rightarrow> 'n"
  js_mod :: "'n \<Rightarrow> 'n \<Rightarrow> 'n"
  js_min :: "'n \<Rightarrow> 'n \<Rightarrow> 'n"
  js_ceil :: "'n \<Rightarrow> 'n"
  js_falsy :: "'n \<Rightarrow> bool"

text \<open>A count (a length, an index) as a number.\<close>

abbreviation num :: "'n arith \<Rightarrow> nat \<Rightarrow> 'n" where
  "num A n \<equiv> js_lit A (real n)"

text \<open>\<open>v || d\<close> on an optional number: an absent or falsy \<open>v\<close> gives \<open>d\<close>.\<close>

definition num_or :: "'n arith \<Rightarrow> 'n option \<Rightarrow> 'n \<Rightarrow> 'n" where
  "num_or A v d = (case v of None \<Rightarrow> d | Some x \<Rightarrow> if js_falsy A x then d else x)"

text \<open>\<open>falsy || d\<close> on an optional string: absent and the empty string give \<open>d\<close>.\<close>

definition str_or :: "string option \<Rightarrow> string \<Rightarrow> string" where
  "str_or v d = (case v of None \<Rightarrow> d | Some s \<Rightarrow> if s = [] then d else s)"

text \<open>\<open>s.split(c)\<close> for a one-character separator: always at least one piece.\<close>

fun split :: "'a \<Rightarrow> 'a list \<Rightarrow> 'a list list" where
  "split c [] = [[]]"
| "split c (x # xs) =
     (if x = c then [] # split c xs
      else (case split c xs of l # ls \<Rightarrow> (x # l) # ls | [] \<Rightarrow> [[x]]))"

text \<open>\<open>line.replace(/\r$/, '')\<close>: one carriage return at the very end is removed.\<close>

definition strip_cr :: "jsstring \<Rightarrow> jsstring" where
  "strip_cr line = (if line \<noteq> [] \<and> last line = 0x0D then butlast line else line)"

definition text_lines :: "jsstring \<Rightarrow> jsstring list" where
  "text_lines asciiText = map strip_cr (split 0x0A asciiText)"

text \<open>
  \<open>Math.max(...xs)\<close>. On no arguments JavaScript gives \<open>-Infinity\<close>; both callers
  pass the lengths of \<open>text_lines\<close>, which is never empty (lemma
  \<open>text_lines_nonempty\<close>), so that case is given 0 here and never read.
\<close>

fun math_max :: "nat list \<Rightarrow> nat" where
  "math_max [] = 0"
| "math_max (x # xs) = foldl max x xs"

text \<open>\<open>line[x] || ' '\<close>: past the end of the row the cell holds a space.\<close>

definition char_at :: "jsstring \<Rightarrow> nat \<Rightarrow> jschar" where
  "char_at line x = (if x < length line then line ! x else ch CHR '' '')"
section \<open>Intensity renderer: \<open>AsciiToImage\<close>\<close>

subsection \<open>\<open>buildCharMap\<close>\<close>

definition lightChars :: "jschar list" where
  "lightChars =
     [ch CHR ''@'', ch CHR ''#'', ch CHR ''$'', ch CHR ''%'', ch CHR ''&'', ch CHR ''*'',
      ch CHR ''+'', ch CHR ''='', ch CHR ''~'', 0x2588, 0x2593, 0x2592, 0x2591]"

definition mediumChars :: "jschar list" where
  "mediumChars = js ''ABCDEFGHIJKLMNOPQRSTUVWXYZ0123456789''"

definition lineChars :: "jschar list" where
  "lineChars =
     [0x2500, 0x2502, 0x250C, 0x2510, 0x2514, 0x2518, 0x251C, 0x2524, 0x252C, 0x2534,
      0x253C, 0x2550, 0x2551, 0x2554, 0x2557, 0x255A, 0x255D, 0x2560, 0x2563, 0x2566,
      0x2569, 0x256C]"

text \<open>The object \<open>map\<close> when \<open>buildCharMap\<close> has run all its assignments.\<close>

definition charMap_table :: "jschar \<rightharpoonup> int" where
  "charMap_table =
     (let m0 = assign Map.empty [(ch CHR '' '', 0), (0x09, 0), (0x0A, 0)];
          m1 = assign m0 (map (\<lambda>(i, c). (c, 255 - int i * 10)) (enumerate 0 lightChars));
          m2 = assign m1 (map (\<lambda>c. (c, 180)) mediumChars);
          m3 = assign m2 (map (\<lambda>c. (c, 200)) lineChars);
          m4 = assign m3
                 [(ch CHR ''_'', 150), (ch CHR ''|'', 200), (ch CHR ''-'', 150),
                  (ch CHR ''='', 200), (0x5C, 180), (ch CHR ''/'', 180)];
          m5 = assign m4
                 [(ch CHR ''.'', 100), (ch CHR '','', 80), (ch CHR '':'', 120),
                  (ch CHR '';'', 100), (0x27, 90), (0x22, 100), (0x60, 70),
                  (ch CHR ''^'', 140), (ch CHR ''~'', 130), (ch CHR ''*'', 220),
                  (ch CHR ''+'', 160), (ch CHR ''o'', 140), (ch CHR ''O'', 180),
                  (ch CHR ''x'', 150), (ch CHR ''X'', 190), (ch CHR ''#'', 240),
                  (ch CHR ''@'', 255)]
      in m5)"

text \<open>
  The \<open>Proxy\<close> that \<open>buildCharMap\<close> returns, read at a one-character key, which is
  how \<open>convert\<close> reads it (\<open>this.charMap[char]\<close> with \<open>char = line[x] || ' '\<close>).
  The last branch of the handler (128) is for keys that are not one-character strings.
\<close>

definition charMap :: "jschar \<Rightarrow> int" where
  "charMap c =
     (case charMap_table c of
        Some v \<Rightarrow> v
      | None \<Rightarrow> min 255 (uint c mod 256))"
subsection \<open>\<open>convert\<close>\<close>

record 'n image_options =
  opt_pixelSize :: "'n option"
  opt_scale :: "'n option"
  opt_backgroundColor :: "string option"
  opt_foregroundColor :: "string option"
  opt_colorMode :: "string option"

record 'n image_config =
  pixelSize :: 'n
  scale :: 'n
  backgroundColor :: string
  foregroundColor :: string
  colorMode :: string

text \<open>The constructor.\<close>

definition AsciiToImage :: "'n arith \<Rightarrow> 'n image_options \<Rightarrow> 'n image_config" where
  "AsciiToImage A options =
     \<lparr> pixelSize = num_or A (opt_pixelSize options) (num A 8),
       scale = num_or A (opt_scale options) (num A 1),
       backgroundColor = str_or (opt_backgroundColor options) ''#000000'',
       foregroundColor = str_or (opt_foregroundColor options) ''#ffffff'',
       colorMode = str_or (opt_colorMode options) ''grayscale'' \<rparr>"

text \<open>
  A value of \<open>ctx.fillStyle\<close>: a colour string of the configuration, or one of the two
  template strings \<open>rgb(g, g, g)\<close> and \<open>hsl(h, s%, l%)\<close>, kept as their numbers.
\<close>

datatype 'n fill_style = Css string | Rgb int int int | Hsl 'n 'n 'n

text \<open>
  The colour chosen for one cell. A mode that is none of the three strings assigns
  nothing, so the style of the previous \<open>fillRect\<close> stays.
\<close>

definition cell_style ::
    "'n arith \<Rightarrow> 'n image_config \<Rightarrow> 'n fill_style \<Rightarrow> jschar \<Rightarrow> int \<Rightarrow> 'n fill_style" where
  "cell_style A cfg previous c intensity =
     (if colorMode cfg = ''monochrome'' then
        (if intensity > 128 then Css (foregroundColor cfg) else Css (backgroundColor cfg))
      else if colorMode cfg = ''grayscale'' then
        Rgb intensity intensity intensity
      else if colorMode cfg = ''color'' then
        Hsl (js_mod A (js_mul A (num A (unat c)) (js_lit A 137.508)) (num A 360))
            (js_min A (num A 100) (js_div A (js_lit A (real_of_int intensity)) (js_lit A 2.55)))
            (js_div A (js_lit A (real_of_int intensity)) (js_lit A 2.55))
      else previous)"

text \<open>One \<open>ctx.fillRect(x, y, w, h)\<close> together with the fill style in force.\<close>

record 'n fill_rect =
  style :: "'n fill_style"
  rect_x :: 'n
  rect_y :: 'n
  rect_w :: 'n
  rect_h :: 'n

text \<open>
  The canvas library (the package \<open>canvas\<close>, which is not part of the sources):
  \<open>createCanvas(width, height)\<close>, and the width and the height of the canvas it made.
\<close>

record ('n, 's) canvas_lib =
  lib_createCanvas :: "'n \<Rightarrow> 'n \<Rightarrow> 's"
  lib_width :: "'s \<Rightarrow> 'n"
  lib_height :: "'s \<Rightarrow> 'n"

text \<open>The canvas that \<open>convert\<close> creates, and the fills it does on it, in order.\<close>

record ('n, 's) surface =
  surface_canvas :: 's
  fills :: "'n fill_rect list"

text \<open>The body of the inner loop for the cell in column \<open>x\<close> of row \<open>y\<close>.\<close>

definition draw_block ::
    "'n arith \<Rightarrow> 'n image_config \<Rightarrow> 'n fill_style \<Rightarrow> jsstring \<Rightarrow> nat \<Rightarrow> nat \<Rightarrow> 'n fill_rect" where
  "draw_block A cfg previous line y x =
     (let c = char_at line x;
          intensity = charMap c
      in \<lparr> style = cell_style A cfg previous c intensity,
           rect_x = js_mul A (js_mul A (num A x) (pixelSize cfg)) (scale cfg),
           rect_y = js_mul A (js_mul A (num A y) (pixelSize cfg)) (scale cfg),
           rect_w = js_mul A (pixelSize cfg) (scale cfg),
           rect_h = js_mul A (pixelSize cfg) (scale cfg) \<rparr>)"

text \<open>The two nested loops, the list of fills done so far threaded through.\<close>

fun draw_row ::
    "'n arith \<Rightarrow> 'n image_config \<Rightarrow> jsstring \<Rightarrow> nat \<Rightarrow> nat list \<Rightarrow> 'n fill_rect list \<Rightarrow>
     'n fill_rect list" where
  "draw_row A cfg line y [] done = done"
| "draw_row A cfg line y (x # xs) done =
     draw_row A cfg line y xs (done @ [draw_block A cfg (style (last done)) line y x])"

fun draw_rows ::
    "'n arith \<Rightarrow> 'n image_config \<Rightarrow> jsstring list \<Rightarrow> nat \<Rightarrow> nat list \<Rightarrow> 'n fill_rect list \<Rightarrow>
     'n fill_rect list" where
  "draw_rows A cfg lines maxWidth [] done = done"
| "draw_rows A cfg lines maxWidth (y # ys) done =
     draw_rows A cfg lines maxWidth ys (draw_row A cfg (lines ! y) y [0..<maxWidth] done)"

text \<open>
  \<open>convert\<close> up to the canvas it hands to the PNG encoder: the canvas that the library
  makes for \<open>canvasWidth\<close> and \<open>canvasHeight\<close>, the background fill, then one block per
  cell.
\<close>

definition convert ::
    "'n arith \<Rightarrow> ('n, 's) canvas_lib \<Rightarrow> 'n image_config \<Rightarrow> jsstring \<Rightarrow> ('n, 's) surface" where
  "convert A lib cfg asciiText =
     (let lines = text_lines asciiText;
          maxWidth = math_max (map length lines);
          height = length lines;
          canvasWidth = js_mul A (js_mul A (num A maxWidth) (pixelSize cfg)) (scale cfg);
          canvasHeight = js_mul A (js_mul A (num A height) (pixelSize cfg)) (scale cfg);
          canvas = lib_createCanvas lib canvasWidth canvasHeight;
          background = \<lparr> style = Css (backgroundColor cfg), rect_x = num A 0, rect_y = num A 0,
                         rect_w = canvasWidth, rect_h = canvasHeight \<rparr>
      in \<lparr> surface_canvas = canvas,
           fills = draw_rows A cfg lines maxWidth [0..<height] [background] \<rparr>)"

section \<open>Glyph renderer: \<open>AsciiToCanvas\<close>\<close>

subsection \<open>\<open>buildPixelFont\<close>\<close>

type_synonym glyph = "bool list list"

text \<open>
  \<open>str.trim()\<close> removes white space and line terminators at both ends.
\<close>

definition is_trimmed :: "jschar \<Rightarrow> bool" where
  "is_trimmed c \<longleftrightarrow>
     c \<in> {0x09, 0x0A, 0x0B, 0x0C, 0x0D, 0x20, 0xA0, 0x1680, 0x2028, 0x2029, 0x202F,
          0x205F, 0x3000, 0xFEFF} \<or> (0x2000 \<le> c \<and> c \<le> 0x200A)"

definition trim :: "jsstring \<Rightarrow> jsstring" where
  "trim s = rev (dropWhile is_trimmed (rev (dropWhile is_trimmed s)))"

text \<open>
  The helper \<open>pattern\<close>: row \<open>y\<close> of the grid comes from line \<open>y\<close> of the trimmed
  template (\<open>lines[y] || ''\<close>), and a cell is on where that line holds one of
  \<open>#\<close>, \<open>X\<close>, \<open>*\<close> (\<open>line[x]\<close> is \<open>undefined\<close> past the end of the line).
\<close>

definition pattern :: "nat \<Rightarrow> nat \<Rightarrow> jsstring \<Rightarrow> glyph" where
  "pattern charWidth charHeight str =
     (let lines = split 0x0A (trim str)
      in map (\<lambda>y.
           let line = (if y < length lines then lines ! y else [])
           in map (\<lambda>x. x < length line \<and>
                      (line ! x = ch CHR ''#'' \<or> line ! x = ch CHR ''X'' \<or> line ! x = ch CHR ''*''))
                [0..<charWidth])
         [0..<charHeight])"

text \<open>\<open>Array(charHeight).fill(null).map(() => Array(charWidth).fill(false))\<close>\<close>

definition emptyPattern :: "nat \<Rightarrow> nat \<Rightarrow> glyph" where
  "emptyPattern charWidth charHeight = replicate charHeight (replicate charWidth False)"

text \<open>
  The template literals handed to \<open>pattern\<close>, one for each statement
  \<open>font[c] = pattern(`...`)\<close>, in source order. A template starts and ends with a line
  break; the box drawing characters are named by their code points.
\<close>

definition tpl_A :: jsstring where
  "tpl_A = js ''\<newline>.##..\<newline>#..#.\<newline>#..#.\<newline>####.\<newline>#..#.\<newline>#..#.\<newline>#..#.\<newline>''"

definition tpl_B :: jsstring where
  "tpl_B = js ''\<newline>###..\<newline>#..#.\<newline>#..#.\<newline>###..\<newline>#..#.\<newline>#..#.\<newline>###..\<newline>''"

definition tpl_C :: jsstring where
  "tpl_C = js ''\<newline>.##..\<newline>#..#.\<newline>#....\<newline>#....\<newline>#....\<newline>#..#.\<newline>.##..\<newline>''"

definition tpl_D :: jsstring where
  "tpl_D = js ''\<newline>###..\<newline>#..#.\<newline>#..#.\<newline>#..#.\<newline>#..#.\<newline>#..#.\<newline>###..\<newline>''"

definition tpl_E :: jsstring where
  "tpl_E = js ''\<newline>####.\<newline>#....\<newline>#....\<newline>###..\<newline>#....\<newline>#....\<newline>####.\<newline>''"

definition tpl_F :: jsstring where
  "tpl_F = js ''\<newline>####.\<newline>#....\<newline>#....\<newline>###..\<newline>#....\<newline>#....\<newline>#....\<newline>''"

definition tpl_G :: jsstring where
  "tpl_G = js ''\<newline>.##..\<newline>#..#.\<newline>#....\<newline>#.##.\<newline>#..#.\<newline>#..#.\<newline>.##..\<newline>''"

definition tpl_H :: jsstring where
  "tpl_H = js ''\<newline>#..#.\<newline>#..#.\<newline>#..#.\<newline>####.\<newline>#..#.\<newline>#..#.\<newline>#..#.\<newline>''"

definition tpl_I :: jsstring where
  "tpl_I = js ''\<newline>###..\<newline>..#..\<newline>..#..\<newline>..#..\<newline>..#..\<newline>..#..\<newline>###..\<newline>''"

definition tpl_J :: jsstring where
  "tpl_J = js ''\<newline>..##.\<newline>...#.\<newline>...#.\<newline>...#.\<newline>...#.\<newline>#..#.\<newline>.##..\<newline>''"

definition tpl_K :: jsstring where
  "tpl_K = js ''\<newline>#..#.\<newline>#.#..\<newline>##...\<newline>#....\<newline>##...\<newline>#.#..\<newline>#..#.\<newline>''"

definition tpl_L :: jsstring where
  "tpl_L = js ''\<newline>#....\<newline>#....\<newline>#....\<newline>#....\<newline>#....\<newline>#....\<newline>####.\<newline>''"

definition tpl_M :: jsstring where
  "tpl_M = js ''\<newline>#..#.\<newline>##.##\<newline>#.#.#\<newline>#...#\<newline>#...#\<newline>#...#\<newline>#...#\<newline>''"

definition tpl_N :: jsstring where
  "tpl_N = js ''\<newline>#..#.\<newline>##..#.\<newline>#.#..\<newline>#..#.\<newline>#..#.\<newline>#..#.\<newline>#..#.\<newline>''"

definition tpl_O :: jsstring where
  "tpl_O = js ''\<newline>.##..\<newline>#..#.\<newline>#..#.\<newline>#..#.\<newline>#..#.\<newline>#..#.\<newline>.##..\<newline>''"

definition tpl_P :: jsstring where
  "tpl_P = js ''\<newline>###..\<newline>#..#.\<newline>#..#.\<newline>###..\<newline>#....\<newline>#....\<newline>#....\<newline>''"

definition tpl_Q :: jsstring where
  "tpl_Q = js ''\<newline>.##..\<newline>#..#.\<newline>#..#.\<newline>#..#.\<newline>#.#..\<newline>#..#.\<newline>.##.#\<newline>''"

definition tpl_R :: jsstring where
  "tpl_R = js ''\<newline>###..\<newline>#..#.\<newline>#..#.\<newline>###..\<newline>#.#..\<newline>#..#.\<newline>#..#.\<newline>''"

definition tpl_S :: jsstring where
  "tpl_S = js ''\<newline>.##..\<newline>#..#.\<newline>#....\<newline>.##..\<newline>..#..\<newline>#..#.\<newline>.##..\<newline>''"

definition tpl_T :: jsstring where
  "tpl_T = js ''\<newline>###..\<newline>..#..\<newline>..#..\<newline>..#..\<newline>..#..\<newline>..#..\<newline>..#..\<newline>''"

definition tpl_U :: jsstring where
  "tpl_U = js ''\<newline>#..#.\<newline>#..#.\<newline>#..#.\<newline>#..#.\<newline>#..#.\<newline>#..#.\<newline>.##..\<newline>''"

definition tpl_V :: jsstring where
  "tpl_V = js ''\<newline>#..#.\<newline>#..#.\<newline>#..#.\<newline>#..#.\<newline>#..#.\<newline>.##..\<newline>..#..\<newline>''"

definition tpl_W :: jsstring where
  "tpl_W = js ''\<newline>#...#\<newline>#...#\<newline>#...#\<newline>#.#.#\<newline>##.##\<newline>#..#.\<newline>#..#.\<newline>''"

definition tpl_X :: jsstring where
  "tpl_X = js ''\<newline>#..#.\<newline>#..#.\<newline>.##..\<newline>..#..\<newline>.##..\<newline>#..#.\<newline>#..#.\<newline>''"

definition tpl_Y :: jsstring where
  "tpl_Y = js ''\<newline>#..#.\<newline>#..#.\<newline>#..#.\<newline>.##..\<newline>..#..\<newline>..#..\<newline>..#..\<newline>''"

definition tpl_Z :: jsstring where
  "tpl_Z = js ''\<newline>####.\<newline>...#.\<newline>..#..\<newline>.#...\<newline>#....\<newline>#....\<newline>####.\<newline>''"

definition tpl_0 :: jsstring where
  "tpl_0 = js ''\<newline>.##..\<newline>#..#.\<newline>#.##.\<newline>#.##.\<newline>##.#.\<newline>#..#.\<newline>.##..\<newline>''"

definition tpl_1 :: jsstring where
  "tpl_1 = js ''\<newline>..#..\<newline>.##..\<newline>..#..\<newline>..#..\<newline>..#..\<newline>..#..\<newline>###..\<newline>''"

definition tpl_2 :: jsstring where
  "tpl_2 = js ''\<newline>.##..\<newline>#..#.\<newline>...#.\<newline>..#..\<newline>.#...\<newline>#....\<newline>####.\<newline>''"

definition tpl_3 :: jsstring where
  "tpl_3 = js ''\<newline>.##..\<newline>#..#.\<newline>...#.\<newline>.##..\<newline>...#.\<newline>#..#.\<newline>.##..\<newline>''"

definition tpl_4 :: jsstring where
  "tpl_4 = js ''\<newline>...#..\<newline>..#.#.\<newline>.#..#.\<newline>#...#\<newline>####.\<newline>....#\<newline>....#\<newline>''"

definition tpl_5 :: jsstring where
  "tpl_5 = js ''\<newline>####.\<newline>#....\<newline>#....\<newline>###..\<newline>...#.\<newline>...#.\<newline>###..\<newline>''"

definition tpl_6 :: jsstring where
  "tpl_6 = js ''\<newline>.##..\<newline>#....\<newline>#....\<newline>###..\<newline>#..#.\<newline>#..#.\<newline>.##..\<newline>''"

definition tpl_7 :: jsstring where
  "tpl_7 = js ''\<newline>####.\<newline>...#.\<newline>...#.\<newline>..#..\<newline>.#...\<newline>#....\<newline>#....\<newline>''"

definition tpl_8 :: jsstring where
  "tpl_8 = js ''\<newline>.##..\<newline>#..#.\<newline>#..#.\<newline>.##..\<newline>#..#.\<newline>#..#.\<newline>.##..\<newline>''"

definition tpl_9 :: jsstring where
  "tpl_9 = js ''\<newline>.##..\<newline>#..#.\<newline>#..#.\<newline>.###.\<newline>...#.\<newline>..#..\<newline>.##..\<newline>''"

definition tpl_dot :: jsstring where
  "tpl_dot = js ''\<newline>.....\<newline>.....\<newline>.....\<newline>.....\<newline>.....\<newline>..#..\<newline>..#..\<newline>''"

definition tpl_comma :: jsstring where
  "tpl_comma = js ''\<newline>.....\<newline>.....\<newline>.....\<newline>.....\<newline>.....\<newline>..#..\<newline>.#...\<newline>''"

definition tpl_colon :: jsstring where
  "tpl_colon = js ''\<newline>.....\<newline>.....\<newline>..#..\<newline>.....\<newline>.....\<newline>..#..\<newline>.....\<newline>''"

definition tpl_semicolon :: jsstring where
  "tpl_semicolon = js ''\<newline>.....\<newline>.....\<newline>..#..\<newline>.....\<newline>.....\<newline>..#..\<newline>.#...\<newline>''"

definition tpl_apostrophe :: jsstring where
  "tpl_apostrophe = js ''\<newline>..#..\<newline>.#...\<newline>.....\<newline>.....\<newline>.....\<newline>.....\<newline>.....\<newline>''"

definition tpl_quote :: jsstring where
  "tpl_quote = js ''\<newline>.#.#.\<newline>.#.#.\<newline>.....\<newline>.....\<newline>.....\<newline>.....\<newline>.....\<newline>''"

definition tpl_backtick :: jsstring where
  "tpl_backtick = js ''\<newline>.#...\<newline>..#..\<newline>.....\<newline>.....\<newline>.....\<newline>.....\<newline>.....\<newline>''"

definition tpl_bang :: jsstring where
  "tpl_bang = js ''\<newline>..#..\<newline>..#..\<newline>..#..\<newline>..#..\<newline>..#..\<newline>.....\<newline>..#..\<newline>''"

definition tpl_question :: jsstring where
  "tpl_question = js ''\<newline>.##..\<newline>#..#.\<newline>...#.\<newline>..#..\<newline>..#..\<newline>.....\<newline>..#..\<newline>''"

definition tpl_minus :: jsstring where
  "tpl_minus = js ''\<newline>.....\<newline>.....\<newline>.....\<newline>####.\<newline>.....\<newline>.....\<newline>.....\<newline>''"

definition tpl_underscore :: jsstring where
  "tpl_underscore = js ''\<newline>.....\<newline>.....\<newline>.....\<newline>.....\<newline>.....\<newline>.....\<newline>####.\<newline>''"

definition tpl_equals :: jsstring where
  "tpl_equals = js ''\<newline>.....\<newline>.....\<newline>####.\<newline>.....\<newline>####.\<newline>.....\<newline>.....\<newline>''"

definition tpl_plus :: jsstring where
  "tpl_plus = js ''\<newline>.....\<newline>..#..\<newline>..#..\<newline>####.\<newline>..#..\<newline>..#..\<newline>.....\<newline>''"

definition tpl_star :: jsstring where
  "tpl_star = js ''\<newline>..#..\<newline>#.#.#\<newline>.##..\<newline>####.\<newline>.##..\<newline>#.#.#\<newline>..#..\<newline>''"

definition tpl_slash :: jsstring where
  "tpl_slash = js ''\<newline>....#\<newline>....#\<newline>...#.\<newline>..#..\<newline>.#...\<newline>#....\<newline>#....\<newline>''"

definition tpl_backslash :: jsstring where
  "tpl_backslash = js ''\<newline>#....\<newline>#....\<newline>.#...\<newline>..#..\<newline>...#.\<newline>....#\<newline>....#\<newline>''"

definition tpl_bar :: jsstring where
  "tpl_bar = js ''\<newline>..#..\<newline>..#..\<newline>..#..\<newline>..#..\<newline>..#..\<newline>..#..\<newline>..#..\<newline>''"

definition tpl_lparen :: jsstring where
  "tpl_lparen = js ''\<newline>...#.\<newline>..#..\<newline>.#...\<newline>.#...\<newline>.#...\<newline>..#..\<newline>...#.\<newline>''"

definition tpl_rparen :: jsstring where
  "tpl_rparen = js ''\<newline>#....\<newline>.#...\<newline>..#..\<newline>..#..\<newline>..#..\<newline>.#...\<newline>#....\<newline>''"

definition tpl_lbracket :: jsstring where
  "tpl_lbracket = js ''\<newline>###..\<newline>#....\<newline>#....\<newline>#....\<newline>#....\<newline>#....\<newline>###..\<newline>''"

definition tpl_rbracket :: jsstring where
  "tpl_rbracket = js ''\<newline>###..\<newline>..#..\<newline>..#..\<newline>..#..\<newline>..#..\<newline>..#..\<newline>###..\<newline>''"

definition tpl_lbrace :: jsstring where
  "tpl_lbrace = js ''\<newline>..##.\<newline>..#..\<newline>..#..\<newline>#....\<newline>..#..\<newline>..#..\<newline>..##.\<newline>''"

definition tpl_rbrace :: jsstring where
  "tpl_rbrace = js ''\<newline>##...\<newline>.#...\<newline>.#...\<newline>....#\<newline>.#...\<newline>.#...\<newline>##...\<newline>''"

definition tpl_less :: jsstring where
  "tpl_less = js ''\<newline>....#\<newline>...#.\<newline>..#..\<newline>.#...\<newline>..#..\<newline>...#.\<newline>....#\<newline>''"

definition tpl_greater :: jsstring where
  "tpl_greater = js ''\<newline>#....\<newline>.#...\<newline>..#..\<newline>...#.\<newline>..#..\<newline>.#...\<newline>#....\<newline>''"

definition tpl_at :: jsstring where
  "tpl_at = js ''\<newline>.##..\<newline>#..#.\<newline>#.##.\<newline>#.##.\<newline>#.#..\<newline>#....\<newline>.##..\<newline>''"

definition tpl_hash :: jsstring where
  "tpl_hash = js ''\<newline>.#.#.\<newline>.#.#.\<newline>####.\<newline>.#.#.\<newline>####.\<newline>.#.#.\<newline>.#.#.\<newline>''"

definition tpl_dollar :: jsstring where
  "tpl_dollar = js ''\<newline>.####\<newline>.#.#.\<newline>.#...\<newline>.####\<newline>....#\<newline>.#.#.\<newline>.####\<newline>''"

definition tpl_percent :: jsstring where
  "tpl_percent = js ''\<newline>#...#\<newline>#..#.\<newline>..#..\<newline>.#...\<newline>#..#.\<newline>#...#\<newline>.....\<newline>''"

definition tpl_amp :: jsstring where
  "tpl_amp = js ''\<newline>.##..\<newline>#..#.\<newline>#....\<newline>.##..\<newline>#..#.\<newline>#..#.\<newline>.##.#\<newline>''"

definition tpl_caret :: jsstring where
  "tpl_caret = js ''\<newline>..#..\<newline>.#.#.\<newline>#...#\<newline>.....\<newline>.....\<newline>.....\<newline>.....\<newline>''"

definition tpl_tilde :: jsstring where
  "tpl_tilde = js ''\<newline>.....\<newline>.....\<newline>.##.#\<newline>#.##.\<newline>.....\<newline>.....\<newline>.....\<newline>''"

definition tpl_o :: jsstring where
  "tpl_o = js ''\<newline>.....\<newline>.....\<newline>.##..\<newline>#..#.\<newline>#..#.\<newline>.##..\<newline>.....\<newline>''"

definition tpl_x :: jsstring where
  "tpl_x = js ''\<newline>.....\<newline>.....\<newline>#...#\<newline>.#.#.\<newline>..#..\<newline>.#.#.\<newline>#...#\<newline>''"

definition tpl_u2500 :: jsstring where
  "tpl_u2500 = js ''\<newline>.....\<newline>.....\<newline>.....\<newline>####.\<newline>.....\<newline>.....\<newline>.....\<newline>''"

definition tpl_u2502 :: jsstring where
  "tpl_u2502 = js ''\<newline>..#..\<newline>..#..\<newline>..#..\<newline>..#..\<newline>..#..\<newline>..#..\<newline>..#..\<newline>''"

definition tpl_u250C :: jsstring where
  "tpl_u250C = js ''\<newline>.....\<newline>.....\<newline>.....\<newline>####.\<newline>#....\<newline>#....\<newline>#....\<newline>''"

definition tpl_u2510 :: jsstring where
  "tpl_u2510 = js ''\<newline>.....\<newline>.....\<newline>.....\<newline>####.\<newline>....#\<newline>....#\<newline>....#\<newline>''"

definition tpl_u2514 :: jsstring where
  "tpl_u2514 = js ''\<newline>#....\<newline>#....\<newline>#....\<newline>####.\<newline>.....\<newline>.....\<newline>.....\<newline>''"

definition tpl_u2518 :: jsstring where
  "tpl_u2518 = js ''\<newline>....#\<newline>....#\<newline>....#\<newline>####.\<newline>.....\<newline>.....\<newline>.....\<newline>''"

definition tpl_u251C :: jsstring where
  "tpl_u251C = js ''\<newline>..#..\<newline>..#..\<newline>..#..\<newline>####.\<newline>#....\<newline>#....\<newline>#....\<newline>''"

definition tpl_u2524 :: jsstring where
  "tpl_u2524 = js ''\<newline>..#..\<newline>..#..\<newline>..#..\<newline>####.\<newline>....#\<newline>....#\<newline>....#\<newline>''"

definition tpl_u252C :: jsstring where
  "tpl_u252C = js ''\<newline>.....\<newline>.....\<newline>.....\<newline>####.\<newline>..#..\<newline>..#..\<newline>..#..\<newline>''"

definition tpl_u2534 :: jsstring where
  "tpl_u2534 = js ''\<newline>..#..\<newline>..#..\<newline>..#..\<newline>####.\<newline>.....\<newline>.....\<newline>.....\<newline>''"

definition tpl_u253C :: jsstring where
  "tpl_u253C = js ''\<newline>..#..\<newline>..#..\<newline>..#..\<newline>####.\<newline>..#..\<newline>..#..\<newline>..#..\<newline>''"

definition tpl_u2550 :: jsstring where
  "tpl_u2550 = js ''\<newline>.....\<newline>.....\<newline>####.\<newline>.....\<newline>####.\<newline>.....\<newline>.....\<newline>''"

definition tpl_u2551 :: jsstring where
  "tpl_u2551 = js ''\<newline>..#..\<newline>..#..\<newline>..#..\<newline>..#..\<newline>..#..\<newline>..#..\<newline>..#..\<newline>''"

definition tpl_u2554 :: jsstring where
  "tpl_u2554 = js ''\<newline>.....\<newline>.....\<newline>.....\<newline>####.\<newline>#..#.\<newline>#..#.\<newline>#..#.\<newline>''"

definition tpl_u2557 :: jsstring where
  "tpl_u2557 = js ''\<newline>.....\<newline>.....\<newline>.....\<newline>####.\<newline>#..#.\<newline>#..#.\<newline>#..#.\<newline>''"

definition tpl_u255A :: jsstring where
  "tpl_u255A = js ''\<newline>#..#.\<newline>#..#.\<newline>#..#.\<newline>####.\<newline>.....\<newline>.....\<newline>.....\<newline>''"

definition tpl_u255D :: jsstring where
  "tpl_u255D = js ''\<newline>#..#.\<newline>#..#.\<newline>#..#.\<newline>####.\<newline>.....\<newline>.....\<newline>.....\<newline>''"

definition tpl_u2560 :: jsstring where
  "tpl_u2560 = js ''\<newline>..#..\<newline>..#..\<newline>..#..\<newline>####.\<newline>#..#.\<newline>#..#.\<newline>#..#.\<newline>''"

definition tpl_u2563 :: jsstring where
  "tpl_u2563 = js ''\<newline>..#..\<newline>..#..\<newline>..#..\<newline>####.\<newline>#..#.\<newline>#..#.\<newline>#..#.\<newline>''"

definition tpl_u2566 :: jsstring where
  "tpl_u2566 = js ''\<newline>.....\<newline>.....\<newline>.....\<newline>####.\<newline>#..#.\<newline>#..#.\<newline>#..#.\<newline>''"

definition tpl_u2569 :: jsstring where
  "tpl_u2569 = js ''\<newline>#..#.\<newline>#..#.\<newline>#..#.\<newline>####.\<newline>.....\<newline>.....\<newline>.....\<newline>''"

definition tpl_u256C :: jsstring where
  "tpl_u256C = js ''\<newline>#..#.\<newline>#..#.\<newline>#..#.\<newline>####.\<newline>#..#.\<newline>#..#.\<newline>#..#.\<newline>''"

text \<open>
  The object \<open>font\<close> after the white space entries, the letters, the digits and the
  symbols up to and including \<open>font['o']\<close>, in source order (\<open>w\<close> and \<open>h\<close> are
  \<open>this.charWidth\<close> and \<open>this.charHeight\<close>).
\<close>

definition font_upto_o :: "nat \<Rightarrow> nat \<Rightarrow> (jschar \<rightharpoonup> glyph)" where
  "font_upto_o w h =
     assign Map.empty
       [(ch CHR '' '', emptyPattern w h), (0x09, emptyPattern w h),
        (0x0A, emptyPattern w h), (0x0D, emptyPattern w h),
        (ch CHR ''A'', pattern w h tpl_A), (ch CHR ''B'', pattern w h tpl_B),
        (ch CHR ''C'', pattern w h tpl_C), (ch CHR ''D'', pattern w h tpl_D),
        (ch CHR ''E'', pattern w h tpl_E), (ch CHR ''F'', pattern w h tpl_F),
        (ch CHR ''G'', pattern w h tpl_G), (ch CHR ''H'', pattern w h tpl_H),
        (ch CHR ''I'', pattern w h tpl_I), (ch CHR ''J'', pattern w h tpl_J),
        (ch CHR ''K'', pattern w h tpl_K), (ch CHR ''L'', pattern w h tpl_L),
        (ch CHR ''M'', pattern w h tpl_M), (ch CHR ''N'', pattern w h tpl_N),
        (ch CHR ''O'', pattern w h tpl_O), (ch CHR ''P'', pattern w h tpl_P),
        (ch CHR ''Q'', pattern w h tpl_Q), (ch CHR ''R'', pattern w h tpl_R),
        (ch CHR ''S'', pattern w h tpl_S), (ch CHR ''T'', pattern w h tpl_T),
        (ch CHR ''U'', pattern w h tpl_U), (ch CHR ''V'', pattern w h tpl_V),
        (ch CHR ''W'', pattern w h tpl_W), (ch CHR ''X'', pattern w h tpl_X),
        (ch CHR ''Y'', pattern w h tpl_Y), (ch CHR ''Z'', pattern w h tpl_Z),
        (ch CHR ''0'', pattern w h tpl_0), (ch CHR ''1'', pattern w h tpl_1),
        (ch CHR ''2'', pattern w h tpl_2), (ch CHR ''3'', pattern w h tpl_3),
        (ch CHR ''4'', pattern w h tpl_4), (ch CHR ''5'', pattern w h tpl_5),
        (ch CHR ''6'', pattern w h tpl_6), (ch CHR ''7'', pattern w h tpl_7),
        (ch CHR ''8'', pattern w h tpl_8), (ch CHR ''9'', pattern w h tpl_9),
        (ch CHR ''.'', pattern w h tpl_dot), (ch CHR '','', pattern w h tpl_comma),
        (ch CHR '':'', pattern w h tpl_colon),
        (ch CHR '';'', pattern w h tpl_semicolon),
        (0x0027, pattern w h tpl_apostrophe), (0x0022, pattern w h tpl_quote),
        (0x0060, pattern w h tpl_backtick), (ch CHR ''!'', pattern w h tpl_bang),
        (ch CHR ''?'', pattern w h tpl_question),
        (ch CHR ''-'', pattern w h tpl_minus),
        (ch CHR ''_'', pattern w h tpl_underscore),
        (ch CHR ''='', pattern w h tpl_equals), (ch CHR ''+'', pattern w h tpl_plus),
        (ch CHR ''*'', pattern w h tpl_star), (ch CHR ''/'', pattern w h tpl_slash),
        (0x005C, pattern w h tpl_backslash), (ch CHR ''|'', pattern w h tpl_bar),
        (ch CHR ''('', pattern w h tpl_lparen), (ch CHR '')'', pattern w h tpl_rparen),
        (ch CHR ''['', pattern w h tpl_lbracket),
        (ch CHR '']'', pattern w h tpl_rbracket),
        (ch CHR ''{'', pattern w h tpl_lbrace), (ch CHR ''}'', pattern w h tpl_rbrace),
        (ch CHR ''<'', pattern w h tpl_less), (ch CHR ''>'', pattern w h tpl_greater),
        (ch CHR ''@'', pattern w h tpl_at), (ch CHR ''#'', pattern w h tpl_hash),
        (ch CHR ''$'', pattern w h tpl_dollar),
        (ch CHR ''%'', pattern w h tpl_percent), (ch CHR ''&'', pattern w h tpl_amp),
        (ch CHR ''^'', pattern w h tpl_caret), (ch CHR ''~'', pattern w h tpl_tilde),
        (ch CHR ''o'', pattern w h tpl_o)]"

text \<open>
  Then \<open>font['O'] = font['o']\<close>, \<open>font['x'] = pattern(...)\<close> and
  \<open>font['X'] = font['x']\<close>.
\<close>

definition font_upto_X :: "nat \<Rightarrow> nat \<Rightarrow> (jschar \<rightharpoonup> glyph)" where
  "font_upto_X w h =
     (let font = font_upto_o w h;
          font = font(ch CHR ''O'' := font (ch CHR ''o''));
          font = assign font [(ch CHR ''x'', pattern w h tpl_x)];
          font = font(ch CHR ''X'' := font (ch CHR ''x''))
      in font)"

text \<open>Then the box drawing characters: the finished \<open>font\<close> object.\<close>

definition font_table :: "nat \<Rightarrow> nat \<Rightarrow> (jschar \<rightharpoonup> glyph)" where
  "font_table w h =
     assign (font_upto_X w h)
       [(0x2500, pattern w h tpl_u2500), (0x2502, pattern w h tpl_u2502),
        (0x250C, pattern w h tpl_u250C), (0x2510, pattern w h tpl_u2510),
        (0x2514, pattern w h tpl_u2514), (0x2518, pattern w h tpl_u2518),
        (0x251C, pattern w h tpl_u251C), (0x2524, pattern w h tpl_u2524),
        (0x252C, pattern w h tpl_u252C), (0x2534, pattern w h tpl_u2534),
        (0x253C, pattern w h tpl_u253C), (0x2550, pattern w h tpl_u2550),
        (0x2551, pattern w h tpl_u2551), (0x2554, pattern w h tpl_u2554),
        (0x2557, pattern w h tpl_u2557), (0x255A, pattern w h tpl_u255A),
        (0x255D, pattern w h tpl_u255D), (0x2560, pattern w h tpl_u2560),
        (0x2563, pattern w h tpl_u2563), (0x2566, pattern w h tpl_u2566),
        (0x2569, pattern w h tpl_u2569), (0x256C, pattern w h tpl_u256C)]"

text \<open>The keys of the finished \<open>font\<close> object, in the order of their first assignment.\<close>

definition font_keys :: "jschar list" where
  "font_keys =
     [ch CHR '' '', 0x09, 0x0A, 0x0D, ch CHR ''A'', ch CHR ''B'', ch CHR ''C'',
      ch CHR ''D'', ch CHR ''E'', ch CHR ''F'', ch CHR ''G'', ch CHR ''H'',
      ch CHR ''I'', ch CHR ''J'', ch CHR ''K'', ch CHR ''L'', ch CHR ''M'',
      ch CHR ''N'', ch CHR ''O'', ch CHR ''P'', ch CHR ''Q'', ch CHR ''R'',
      ch CHR ''S'', ch CHR ''T'', ch CHR ''U'', ch CHR ''V'', ch CHR ''W'',
      ch CHR ''X'', ch CHR ''Y'', ch CHR ''Z'', ch CHR ''0'', ch CHR ''1'',
      ch CHR ''2'', ch CHR ''3'', ch CHR ''4'', ch CHR ''5'', ch CHR ''6'',
      ch CHR ''7'', ch CHR ''8'', ch CHR ''9'', ch CHR ''.'', ch CHR '','',
      ch CHR '':'', ch CHR '';'', 0x0027, 0x0022, 0x0060, ch CHR ''!'',
      ch CHR ''?'', ch CHR ''-'', ch CHR ''_'', ch CHR ''='', ch CHR ''+'',
      ch CHR ''*'', ch CHR ''/'', 0x005C, ch CHR ''|'', ch CHR ''('', ch CHR '')'',
      ch CHR ''['', ch CHR '']'', ch CHR ''{'', ch CHR ''}'', ch CHR ''<'',
      ch CHR ''>'', ch CHR ''@'', ch CHR ''#'', ch CHR ''$'', ch CHR ''%'',
      ch CHR ''&'', ch CHR ''^'', ch CHR ''~'', ch CHR ''o'',
      ch CHR ''x'',
      0x2500, 0x2502, 0x250C, 0x2510, 0x2514, 0x2518, 0x251C, 0x2524, 0x252C,
      0x2534, 0x253C, 0x2550, 0x2551, 0x2554, 0x2557, 0x255A, 0x255D, 0x2560,
      0x2563, 0x2566, 0x2569, 0x256C]"

text \<open>
  The \<open>Proxy\<close> that \<open>buildPixelFont\<close> returns, read at a one-character key, which
  is how \<open>createCanvas\<close> reads it (\<open>this.pixelFont[char]\<close>).
\<close>

definition pixelFont :: "nat \<Rightarrow> nat \<Rightarrow> jschar \<Rightarrow> glyph" where
  "pixelFont w h c =
     (case font_table w h c of
        Some g \<Rightarrow> g
      | None \<Rightarrow> emptyPattern w h)"
subsection \<open>\<open>createCanvas\<close>\<close>

record 'n canvas_options =
  opt_cv_pixelSize :: "'n option"
  opt_cv_scale :: "'n option"
  opt_replaceOriginal :: "bool option"
  opt_charWidth :: "nat option"
  opt_charHeight :: "nat option"
  opt_lineColor :: "string option"

record 'n canvas_config =
  cv_pixelSize :: 'n
  cv_scale :: 'n
  replaceOriginal :: bool
  charWidth :: nat
  charHeight :: nat
  lineColor :: string

text \<open>
  The constructor. \<open>primaryColor\<close> is the trimmed value of the style sheet's
  \<open>--color-primary\<close>, read from the document. The width and the height of the grid are
  counts: \<open>buildPixelFont\<close> makes arrays of these lengths.
\<close>

definition AsciiToCanvas :: "'n arith \<Rightarrow> string \<Rightarrow> 'n canvas_options \<Rightarrow> 'n canvas_config" where
  "AsciiToCanvas A primaryColor options =
     \<lparr> cv_pixelSize = num_or A (opt_cv_pixelSize options) (js_lit A 2.5),
       cv_scale = num_or A (opt_cv_scale options) (num A 1),
       replaceOriginal = (opt_replaceOriginal options \<noteq> Some False),
       charWidth = (case opt_charWidth options of None \<Rightarrow> 5 | Some n \<Rightarrow> if n = 0 then 5 else n),
       charHeight = (case opt_charHeight options of None \<Rightarrow> 7 | Some n \<Rightarrow> if n = 0 then 7 else n),
       lineColor = str_or (opt_lineColor options) (str_or (Some primaryColor) ''#ff0000'') \<rparr>"

text \<open>
  What \<open>createCanvas\<close> reads of \<open>originalElement\<close>: \<open>parseFloat\<close> of its computed
  font size and of its computed line height (either may be \<open>NaN\<close>).
\<close>

record 'n element_style =
  css_fontSize :: 'n
  css_lineHeight :: 'n

record 'n metrics =
  charPixelWidth :: 'n
  charPixelHeight :: 'n
  lineHeight :: 'n

definition cell_metrics ::
    "'n arith \<Rightarrow> 'n canvas_config \<Rightarrow> 'n element_style option \<Rightarrow> 'n metrics" where
  "cell_metrics A cfg originalElement =
     (let glyphWidth = js_mul A (js_mul A (num A (charWidth cfg)) (cv_pixelSize cfg)) (cv_scale cfg);
          glyphHeight = js_mul A (js_mul A (num A (charHeight cfg)) (cv_pixelSize cfg)) (cv_scale cfg)
      in case originalElement of
           None \<Rightarrow>
             \<lparr> charPixelWidth = glyphWidth, charPixelHeight = glyphHeight,
               lineHeight = glyphHeight \<rparr>
         | Some computedStyle \<Rightarrow>
             (let fontSize = num_or A (Some (css_fontSize computedStyle)) (num A 16);
                  lineHeightValue =
                    num_or A (Some (css_lineHeight computedStyle))
                      (js_mul A fontSize (js_lit A 1.2))
              in \<lparr> charPixelWidth = js_mul A fontSize (js_lit A 0.6),
                   charPixelHeight = glyphHeight,
                   lineHeight = lineHeightValue \<rparr>))"

text \<open>A \<open>ctx.fillRect(x, y, w, h)\<close>; the fill style is \<open>lineColor\<close> throughout.\<close>

type_synonym 'n rect = "'n \<times> 'n \<times> 'n \<times> 'n"

text \<open>
  The canvas element: the numbers assigned to \<open>canvas.width\<close> and \<open>canvas.height\<close>, the
  fill style, and the fills done on it, in order.
\<close>

record 'n canvas =
  canvas_width :: 'n
  canvas_height :: 'n
  fillStyle :: string
  rects :: "'n rect list"

definition is_skipped :: "jschar \<Rightarrow> bool" where
  "is_skipped c \<longleftrightarrow> c = ch CHR '' '' \<or> c = 0x09 \<or> c = 0x0A \<or> c = 0x0D"

text \<open>\<open>pattern[py] && pattern[py][px]\<close>\<close>

definition pixel_on :: "glyph \<Rightarrow> nat \<Rightarrow> nat \<Rightarrow> bool" where
  "pixel_on g py px \<longleftrightarrow> py < length g \<and> px < length (g ! py) \<and> g ! py ! px"

definition hasPixels :: "'n canvas_config \<Rightarrow> glyph \<Rightarrow> bool" where
  "hasPixels cfg g \<longleftrightarrow>
     list_ex (\<lambda>py. list_ex (\<lambda>px. pixel_on g py px) [0..<charWidth cfg]) [0..<charHeight cfg]"

text \<open>The fills of the two innermost loops, for a glyph placed at \<open>(charX, charY)\<close>.\<close>

definition glyph_rects :: "'n arith \<Rightarrow> 'n canvas_config \<Rightarrow> glyph \<Rightarrow> 'n \<Rightarrow> 'n \<Rightarrow> 'n rect list" where
  "glyph_rects A cfg g charX charY =
     concat (map (\<lambda>py.
       concat (map (\<lambda>px.
         if pixel_on g py px
         then [(js_add A charX (js_mul A (js_mul A (num A px) (cv_pixelSize cfg)) (cv_scale cfg)),
                js_add A charY (js_mul A (js_mul A (num A py) (cv_pixelSize cfg)) (cv_scale cfg)),
                js_mul A (cv_pixelSize cfg) (cv_scale cfg),
                js_mul A (cv_pixelSize cfg) (cv_scale cfg))]
         else [])
       [0..<charWidth cfg]))
     [0..<charHeight cfg])"

text \<open>
  The body of the loop over \<open>x\<close>, from the fills done so far to the fills done after
  the cell: the \<open>continue\<close> exits add nothing (the one on \<open>!pattern\<close> is never
  taken, a pattern being an array).
\<close>

definition render_cell ::
    "'n arith \<Rightarrow> 'n canvas_config \<Rightarrow> 'n metrics \<Rightarrow> jsstring \<Rightarrow> nat \<Rightarrow> 'n rect list \<Rightarrow> nat \<Rightarrow>
     'n rect list" where
  "render_cell A cfg m line y done x =
     (let c = char_at line x
      in if is_skipped c then done
         else
           (let g = pixelFont (charWidth cfg) (charHeight cfg) c
            in if \<not> hasPixels cfg g then done
               else done @ glyph_rects A cfg g (js_mul A (num A x) (charPixelWidth m))
                                  (js_mul A (num A y) (lineHeight m))))"

definition render_line ::
    "'n arith \<Rightarrow> 'n canvas_config \<Rightarrow> 'n metrics \<Rightarrow> jsstring list \<Rightarrow> nat \<Rightarrow> 'n rect list \<Rightarrow> nat \<Rightarrow>
     'n rect list" where
  "render_line A cfg m lines maxWidth done y =
     foldl (render_cell A cfg m (lines ! y) y) done [0..<maxWidth]"

text \<open>\<open>createCanvas\<close>; \<open>None\<close> is the \<open>null\<close> it returns for a text without columns.\<close>

definition createCanvas ::
    "'n arith \<Rightarrow> 'n canvas_config \<Rightarrow> jsstring \<Rightarrow> 'n element_style option \<Rightarrow> 'n canvas option" where
  "createCanvas A cfg asciiText originalElement =
     (let lines = text_lines asciiText;
          maxWidth = math_max (map length lines);
          height = length lines
      in if maxWidth = 0 \<or> height = 0 then None
         else
           (let m = cell_metrics A cfg originalElement;
                canvasWidth = js_ceil A (js_mul A (num A maxWidth) (charPixelWidth m));
                canvasHeight =
                  js_ceil A
                    (js_add A (js_mul A (js_sub A (num A height) (num A 1)) (lineHeight m))
                       (charPixelHeight m))
            in Some
                 \<lparr> canvas_width = canvasWidth,
                   canvas_height = canvasHeight,
                   fillStyle = lineColor cfg,
                   rects = foldl (render_line A cfg m lines maxWidth) [] [0..<height] \<rparr>))"

section \<open>Markup extraction: \<open>extractFromHtml\<close> and \<open>stripHtml\<close>\<close>

subsection \<open>The regular expressions of the source\<close>

text \<open>
  The regular expressions that the source uses are sequences of single characters,
  character classes, greedy and lazy stars of a class, and one capture group. They are
  matched the way the JavaScript engine matches them, by backtracking: the alternatives
  of a star are tried in its order of preference, and the first way through wins.

  Under the flag \<open>i\<close> two characters match when their canonical forms are equal. Every
  character in the patterns below is ASCII, and JavaScript's canonical form of a
  character outside ASCII is never an ASCII character, so it is enough to fold the ASCII
  letters.
\<close>

datatype atom = Lit jschar | Except jschar | OneOf "jschar list" | AnyChar

datatype item = One atom | Star atom | LazyStar atom | GroupOpen | GroupClose

definition canonicalize :: "jschar \<Rightarrow> jschar" where
  "canonicalize c = (if 0x61 \<le> c \<and> c \<le> 0x7A then c - 0x20 else c)"

definition same_char :: "bool \<Rightarrow> jschar \<Rightarrow> jschar \<Rightarrow> bool" where
  "same_char ignoreCase l c \<longleftrightarrow> (if ignoreCase then canonicalize c = canonicalize l else c = l)"

fun accepts :: "bool \<Rightarrow> atom \<Rightarrow> jschar \<Rightarrow> bool" where
  "accepts ic (Lit l) c = same_char ic l c"
| "accepts ic (Except l) c = (\<not> same_char ic l c)"
| "accepts ic (OneOf ls) c = list_ex (\<lambda>l. same_char ic l c) ls"
| "accepts ic AnyChar c = True"

text \<open>
  All the ways to match the items at the front of \<open>s\<close>, in the order in which
  backtracking finds them: each is the rest of the input after the match and the text of
  group 1. \<open>opened\<close> is the input from where the group began.
\<close>

fun matches :: "bool \<Rightarrow> item list \<Rightarrow> jsstring \<Rightarrow> jsstring option \<Rightarrow> jsstring option \<Rightarrow>
    (jsstring \<times> jsstring option) list" where
  "matches ic [] s opened group1 = [(s, group1)]"
| "matches ic (One a # r) [] opened group1 = []"
| "matches ic (One a # r) (c # s) opened group1 =
     (if accepts ic a c then matches ic r s opened group1 else [])"
| "matches ic (Star a # r) [] opened group1 = matches ic r [] opened group1"
| "matches ic (Star a # r) (c # s) opened group1 =
     (if accepts ic a c
      then matches ic (Star a # r) s opened group1 @ matches ic r (c # s) opened group1
      else matches ic r (c # s) opened group1)"
| "matches ic (LazyStar a # r) [] opened group1 = matches ic r [] opened group1"
| "matches ic (LazyStar a # r) (c # s) opened group1 =
     matches ic r (c # s) opened group1 @
     (if accepts ic a c then matches ic (LazyStar a # r) s opened group1 else [])"
| "matches ic (GroupOpen # r) s opened group1 = matches ic r s (Some s) group1"
| "matches ic (GroupClose # r) s opened group1 =
     matches ic r s opened
       (case opened of
          None \<Rightarrow> None
        | Some s0 \<Rightarrow> Some (take (length s0 - length s) s0))"

text \<open>
  \<open>str.match(re)\<close> for a regular expression without the flag \<open>g\<close>: the first match
  at the leftmost position that has one. The result is \<open>None\<close> for \<open>null\<close>, and
  otherwise element 1 of the match array, \<open>None\<close> if the group took no part.
\<close>

fun match_group1 :: "bool \<Rightarrow> item list \<Rightarrow> jsstring \<Rightarrow> jsstring option option" where
  "match_group1 ic re [] =
     (case matches ic re [] None None of [] \<Rightarrow> None | (rest, g) # _ \<Rightarrow> Some g)"
| "match_group1 ic re (c # s) =
     (case matches ic re (c # s) None None of
        [] \<Rightarrow> match_group1 ic re s
      | (rest, g) # _ \<Rightarrow> Some g)"

text \<open>
  \<open>str.replace(re, rep)\<close> for a regular expression with the flag \<open>g\<close>: every match,
  found from left to right after the end of the one before, is replaced. A match that
  takes no character is followed by a step of one character.
\<close>

function replace_all :: "bool \<Rightarrow> item list \<Rightarrow> jsstring \<Rightarrow> jsstring \<Rightarrow> jsstring" where
  "replace_all ic re rep [] = (case matches ic re [] None None of [] \<Rightarrow> [] | _ # _ \<Rightarrow> rep)"
| "replace_all ic re rep (c # s) =
     (case matches ic re (c # s) None None of
        [] \<Rightarrow> c # replace_all ic re rep s
      | (rest, g) # _ \<Rightarrow>
          if length rest < length (c # s) then rep @ replace_all ic re rep rest
          else rep @ c # replace_all ic re rep s)"
  by pat_completeness auto
termination
  by (relation "measure (\<lambda>(ic, re, rep, s). length s)") auto

definition lits :: "string \<Rightarrow> item list" where
  "lits s = map (\<lambda>c. One (Lit (of_char c))) s"

text \<open>\<open>/<pre[^>]*class=["']ascii["'][^>]*>([\s\S]*?)<\/pre>/i\<close>\<close>

definition pre_ascii_re :: "item list" where
  "pre_ascii_re =
     lits ''<pre'' @ [Star (Except (ch CHR ''>''))] @ lits ''class='' @
     [One (OneOf [0x22, 0x27])] @ lits ''ascii'' @ [One (OneOf [0x22, 0x27])] @
     [Star (Except (ch CHR ''>'')), One (Lit (ch CHR ''>'')),
      GroupOpen, LazyStar AnyChar, GroupClose] @
     lits ''</pre>''"

text \<open>\<open>/<pre[^>]*>([\s\S]*?)<\/pre>/i\<close>\<close>

definition pre_re :: "item list" where
  "pre_re =
     lits ''<pre'' @
     [Star (Except (ch CHR ''>'')), One (Lit (ch CHR ''>'')),
      GroupOpen, LazyStar AnyChar, GroupClose] @
     lits ''</pre>''"

text \<open>\<open>/<[^>]*>/g\<close>\<close>

definition tag_re :: "item list" where
  "tag_re = [One (Lit (ch CHR ''<'')), Star (Except (ch CHR ''>'')), One (Lit (ch CHR ''>''))]"

subsection \<open>\<open>stripHtml\<close> and \<open>extractFromHtml\<close>\<close>

definition stripHtml :: "jsstring \<Rightarrow> jsstring" where
  "stripHtml html =
     (let s = replace_all False tag_re (js '' '') html;
          s = replace_all False (lits ''&nbsp;'') (js '' '') s;
          s = replace_all False (lits ''&amp;'') (js ''&'') s;
          s = replace_all False (lits ''&lt;'') (js ''<'') s;
          s = replace_all False (lits ''&gt;'') (js ''>'') s;
          s = replace_all False (lits ''&quot;'') [0x22] s;
          s = replace_all False (lits ''&#39;'') [0x27] s
      in s)"

text \<open>
  What \<open>extractFromHtml\<close> can throw: its own \<open>Error('No ASCII art found in HTML
  file')\<close>, and the \<open>TypeError\<close> of \<open>stripHtml(undefined)\<close> should a match come
  without its group.
\<close>

datatype extract_error = NoAsciiArtFound | TypeError

definition strip_group :: "jsstring option \<Rightarrow> extract_error + jsstring" where
  "strip_group g = (case g of None \<Rightarrow> Inl TypeError | Some body \<Rightarrow> Inr (stripHtml body))"

text \<open>
  \<open>extractFromHtml\<close> from the text that \<open>readFileSync\<close> has read; \<open>Inl\<close> is a
  thrown error.
\<close>

definition extractFromHtml :: "jsstring \<Rightarrow> extract_error + jsstring" where
  "extractFromHtml html =
     (case match_group1 True pre_ascii_re html of
        Some preMatch1 \<Rightarrow> strip_group preMatch1
      | None \<Rightarrow>
          (case match_group1 True pre_re html of
             Some preMatch2 \<Rightarrow> strip_group preMatch2
           | None \<Rightarrow> Inl NoAsciiArtFound))"


subsection \<open>Parts of the patterns\<close>

text \<open>
  The first way through a list of matches, as \<open>match_group1\<close> and \<open>replace_all\<close>
  take it, and the two stretches that the patterns are made of: the attribute
  \<open>class=["']ascii["']\<close>, and the rest of a block from the end of its opening tag,
  \<open>[^>]*>([\s\S]*?)<\/pre>\<close>.
\<close>

definition first_group :: "(jsstring \<times> jsstring option) list \<Rightarrow> jsstring option option" where
  "first_group ms = (case ms of [] \<Rightarrow> None | (rest, g) # _ \<Rightarrow> Some g)"

definition class_attr :: "item list" where
  "class_attr =
     lits ''class='' @ [One (OneOf [0x22, 0x27])] @ lits ''ascii'' @ [One (OneOf [0x22, 0x27])]"

definition tag_rest :: "item list" where
  "tag_rest =
     [Star (Except (ch CHR ''>'')), One (Lit (ch CHR ''>'')),
      GroupOpen, LazyStar AnyChar, GroupClose] @ lits ''</pre>''"

subsection \<open>The blocks that the extraction looks for, in the specification's words\<close>

text \<open>
  The specification's reading of markup extraction, written without regular expressions,
  to compare \<open>extractFromHtml\<close> with. A block starts with \<open><pre\<close> in any mix of upper
  and lower case; its opening tag runs to the first \<open>>\<close>; its contents run from there
  to the first \<open></pre>\<close>, again in any case.
\<close>

fun spec_starts_with :: "string \<Rightarrow> jsstring \<Rightarrow> bool" where
  "spec_starts_with [] s = True"
| "spec_starts_with (p # ps) [] = False"
| "spec_starts_with (p # ps) (c # s) =
     (canonicalize c = canonicalize (of_char p) \<and> spec_starts_with ps s)"

definition spec_quote_first :: "jsstring \<Rightarrow> bool" where
  "spec_quote_first s = (case s of [] \<Rightarrow> False | c # _ \<Rightarrow> c = 0x22 \<or> c = 0x27)"

text \<open>\<open>class="ascii"\<close> or \<open>class='ascii'\<close> right here.\<close>

definition spec_class_here :: "jsstring \<Rightarrow> bool" where
  "spec_class_here t \<longleftrightarrow>
     spec_starts_with ''class='' t \<and> spec_quote_first (drop 6 t) \<and>
     spec_starts_with ''ascii'' (drop 7 t) \<and> spec_quote_first (drop 12 t)"

text \<open>The class attribute somewhere in the opening tag, before its \<open>>\<close>.\<close>

fun spec_has_ascii_class :: "jsstring \<Rightarrow> bool" where
  "spec_has_ascii_class [] = False"
| "spec_has_ascii_class (c # t) =
     (spec_class_here (c # t) \<or> (c \<noteq> ch CHR ''>'' \<and> spec_has_ascii_class t))"

text \<open>The text before the first \<open>p\<close>, if \<open>p\<close> occurs.\<close>

fun spec_text_before :: "string \<Rightarrow> jsstring \<Rightarrow> jsstring option" where
  "spec_text_before p [] = (if spec_starts_with p [] then Some [] else None)"
| "spec_text_before p (c # s) =
     (if spec_starts_with p (c # s) then Some []
      else map_option ((#) c) (spec_text_before p s))"

text \<open>
  The contents of the block that starts at the very beginning of \<open>s\<close>, if there is one
  and its opening tag satisfies \<open>P\<close>.
\<close>

definition spec_block_here :: "(jsstring \<Rightarrow> bool) \<Rightarrow> jsstring \<Rightarrow> jsstring option" where
  "spec_block_here P s =
     (if spec_starts_with ''<pre'' s \<and> P (drop 4 s) then
        (case dropWhile (\<lambda>c. c \<noteq> ch CHR ''>'') (drop 4 s) of
           [] \<Rightarrow> None
         | _ # inside \<Rightarrow> spec_text_before ''</pre>'' inside)
      else None)"

text \<open>The contents of the first block of the text.\<close>

fun spec_first_block :: "(jsstring \<Rightarrow> bool) \<Rightarrow> jsstring \<Rightarrow> jsstring option" where
  "spec_first_block P [] = spec_block_here P []"
| "spec_first_block P (c # s) =
     (case spec_block_here P (c # s) of
        Some body \<Rightarrow> Some body
      | None \<Rightarrow> spec_first_block P s)"

definition spec_ascii_block :: "jsstring \<Rightarrow> jsstring option" where
  "spec_ascii_block html = spec_first_block spec_has_ascii_class html"

definition spec_pre_block :: "jsstring \<Rightarrow> jsstring option" where
  "spec_pre_block html = spec_first_block (\<lambda>_. True) html"
section \<open>The rows of a text, in the specification's words\<close>

text \<open>
  The specification's reading of the rows, written without \<open>split\<close> and \<open>replace\<close>, to
  compare \<open>text_lines\<close> with: the text is cut at its line feeds into pieces, and the
  row of a piece is the piece without one carriage return at its end, if it has one.
\<close>

fun spec_join_lines :: "jsstring list \<Rightarrow> jsstring" where
  "spec_join_lines [] = []"
| "spec_join_lines [p] = p"
| "spec_join_lines (p # q # ps) = p @ 0x0A # spec_join_lines (q # ps)"

definition spec_row_of :: "jsstring \<Rightarrow> jsstring \<Rightarrow> bool" where
  "spec_row_of row piece \<longleftrightarrow>
     piece = row @ [0x0D] \<or> (piece = row \<and> (row = [] \<or> last row \<noteq> 0x0D))"

definition spec_rows :: "jsstring \<Rightarrow> jsstring list \<Rightarrow> jsstring list \<Rightarrow> bool" where
  "spec_rows text pieces rows \<longleftrightarrow>
     pieces \<noteq> [] \<and> (\<forall>p\<in>set pieces. 0x0A \<notin> set p) \<and> text = spec_join_lines pieces \<and>
     list_all2 spec_row_of rows pieces"


section \<open>An arithmetic of doubles, a canvas library, and inputs for the examples\<close>

text \<open>
  The doubles as the real numbers they denote, every operation rounded to the nearest
  number with a significand of 53 bits, ties to the even one. This is the arithmetic of
  JavaScript wherever no result overflows, gets as small as a subnormal number or is
  undefined; it has no infinities, no \<open>NaN\<close> and no negative zero. \<open>find_scale\<close> looks
  for the power of two that brings a positive number into the range from \<open>2 ^ 52\<close> to
  \<open>2 ^ 53\<close>, in at most as many steps as it is given: 2200 are more than the exponents
  of doubles need.
\<close>

fun find_scale :: "nat \<Rightarrow> real \<Rightarrow> real \<Rightarrow> real" where
  "find_scale 0 a s = s"
| "find_scale (Suc n) a s =
     (if a * s < 2 ^ 52 then find_scale n a (2 * s)
      else if 2 ^ 53 \<le> a * s then find_scale n a (s / 2)
      else s)"

definition nearest_even :: "real \<Rightarrow> int" where
  "nearest_even m =
     (let f = \<lfloor>m\<rfloor>; d = m - of_int f
      in if d < 1 / 2 then f else if 1 / 2 < d then f + 1 else if even f then f else f + 1)"

definition to_double :: "real \<Rightarrow> real" where
  "to_double x =
     (if x = 0 then 0
      else (let s = find_scale 2200 \<bar>x\<bar> 1
            in sgn x * of_int (nearest_even (\<bar>x\<bar> * s)) / s))"

definition double_arith :: "real arith" where
  "double_arith =
     \<lparr> js_lit = to_double,
       js_add = (\<lambda>a b. to_double (a + b)),
       js_sub = (\<lambda>a b. to_double (a - b)),
       js_mul = (\<lambda>a b. to_double (a * b)),
       js_div = (\<lambda>a b. to_double (a / b)),
       js_mod = (\<lambda>a b. a - b * of_int (sgn \<lfloor>a / b\<rfloor> * \<lfloor>\<bar>a / b\<bar>\<rfloor>)),
       js_min = min,
       js_ceil = (\<lambda>a. of_int \<lceil>a\<rceil>),
       js_falsy = (\<lambda>a. a = 0) \<rparr>"

text \<open>A canvas library whose canvas is just the width and the height it was made with.\<close>

definition plain_lib :: "(real, real \<times> real) canvas_lib" where
  "plain_lib = \<lparr> lib_createCanvas = Pair, lib_width = fst, lib_height = snd \<rparr>"


definition monochrome_defaults :: "real image_config" where
  "monochrome_defaults =
     AsciiToImage double_arith
       \<lparr> opt_pixelSize = None, opt_scale = None, opt_backgroundColor = None,
         opt_foregroundColor = None, opt_colorMode = Some ''monochrome'' \<rparr>"


text \<open>
  The glyph renderer with every option left out and no \<open>--color-primary\<close>; and with a
  grid 3 wide and the pixel size 0.1.
\<close>

definition canvas_defaults :: "real canvas_config" where
  "canvas_defaults =
     AsciiToCanvas double_arith []
       \<lparr> opt_cv_pixelSize = None, opt_cv_scale = None, opt_replaceOriginal = None,
         opt_charWidth = None, opt_charHeight = None, opt_lineColor = None \<rparr>"

definition canvas_tenth :: "real canvas_config" where
  "canvas_tenth =
     AsciiToCanvas double_arith []
       \<lparr> opt_cv_pixelSize = Some (js_lit double_arith 0.1), opt_cv_scale = None,
         opt_replaceOriginal = None, opt_charWidth = Some 3, opt_charHeight = None,
         opt_lineColor = None \<rparr>"

text \<open>
  A text of two rows, \<open>ab\<close> and \<open>c\<close>, both ended by a carriage return, the first also
  by a line feed.
\<close>

definition text_two_rows :: jsstring where
  "text_two_rows = js ''ab'' @ [0x0D, 0x0A] @ js ''c'' @ [0x0D]"

text \<open>
  Four documents: \<open><pre class='ascii'>&lt;</pre>\<close>; one with a plain block before a
  block of class \<open>ascii\<close> written in upper case; one with two plain blocks; one
  without any block.
\<close>

definition html_entity :: jsstring where
  "html_entity = js ''<pre class='' @ [0x27] @ js ''ascii'' @ [0x27] @ js ''>&lt;</pre>''"

definition html_upper :: jsstring where
  "html_upper =
     js ''<pre>a</pre><PRE ID=x CLASS='' @ [0x22] @ js ''ASCII'' @ [0x22] @ js ''>X'' @
     [0x0A] @ js ''Y</PRE>''"

definition html_plain :: jsstring where
  "html_plain = js ''<p>t</p><pre>a&amp;b</pre><pre>c</pre>''"

definition html_none :: jsstring where
  "html_none = js ''<p>no art</p>''"

text \<open>A one-row text: U+0080, whose brightness is exactly 128, and \<open>@\<close>.\<close>

definition text_threshold :: jsstring where
  "text_threshold = [0x80, ch CHR ''@'']"


section \<open>Properties of the tables and of the text rows\<close>

lemma dom_assign: "dom (assign m kvs) = dom m \<union> fst ` set kvs"
  unfolding assign_def by (induction kvs arbitrary: m) auto

lemma keys_enumerate: "fst ` set (map (\<lambda>(i, c). (c, f i)) (enumerate n xs)) = set xs"
  by (induction xs arbitrary: n) auto

lemma keys_const: "fst ` set (map (\<lambda>c. (c, v)) xs) = set xs"
  by (induction xs) auto

text \<open>The keys of the brightness table are exactly the characters it assigns.\<close>

lemma dom_charMap_table:
  "dom charMap_table =
     set ([ch CHR '' '', 0x09, 0x0A] @ lightChars @ mediumChars @ lineChars @
          js ''_|-=/.,:;^~*+oOxX#@'' @ [0x5C, 0x27, 0x22, 0x60])"
  unfolding charMap_table_def Let_def dom_assign keys_enumerate keys_const
  by (auto simp: js_def)

lemma split_nonempty: "split c xs \<noteq> []"
  by (induction xs) (auto split: list.splits)

lemma text_lines_nonempty: "text_lines t \<noteq> []"
  by (simp add: text_lines_def split_nonempty)

text \<open>Splitting loses nothing but the separators, and no piece holds one.\<close>

lemma split_join: "concat (map (\<lambda>l. c # l) (split c xs)) = c # xs"
  by (induction xs) (auto split: list.splits)

lemma split_no_separator: "l \<in> set (split c xs) \<Longrightarrow> c \<notin> set l"
  by (induction xs arbitrary: l) (auto split: list.splits if_splits)

lemma math_max_eq_Max: "xs \<noteq> [] \<Longrightarrow> math_max xs = Max (set xs)"
proof (cases xs)
  case (Cons a as)
  have "(\<lambda>x s. max s x) = (max :: nat \<Rightarrow> nat \<Rightarrow> nat)"
    by (intro ext) (rule max.commute)
  then have "math_max (a # as) = fold max as a"
    by (simp add: foldl_conv_fold)
  also have "\<dots> = Max (set (a # as))"
    by (rule Max.set_eq_fold [symmetric])
  finally show ?thesis using Cons by simp
qed simp

lemma columns_eq_Max:
  "math_max (map length (text_lines t)) = Max (set (map length (text_lines t)))"
  by (rule math_max_eq_Max) (simp add: text_lines_nonempty)

text \<open>
  The rows of \<open>text_lines\<close> are the rows of the specification: cutting a text at its
  line feeds is the only way to get pieces without line feeds that join to the text.
\<close>

lemma split_piece: "c \<notin> set p \<Longrightarrow> split c p = [p]"
  by (induction p) auto

lemma split_append_separator: "c \<notin> set p \<Longrightarrow> split c (p @ c # rest) = p # split c rest"
  by (induction p) (auto split: list.splits)

lemma split_spec_join_lines:
  "pieces \<noteq> [] \<Longrightarrow> \<forall>p\<in>set pieces. 0x0A \<notin> set p \<Longrightarrow>
     split 0x0A (spec_join_lines pieces) = pieces"
proof (induction pieces rule: spec_join_lines.induct)
  case 1
  then show ?case by simp
next
  case (2 p)
  then show ?case by (simp add: split_piece)
next
  case (3 p q ps)
  then show ?case by (simp add: split_append_separator)
qed

lemma spec_join_lines_split: "spec_join_lines (split 0x0A t) = t"
proof (induction t)
  case Nil
  show ?case by simp
next
  case (Cons x t)
  obtain l ls where parts: "split 0x0A t = l # ls"
    using split_nonempty [of "0x0A" t] by (cases "split 0x0A t") auto
  with Cons show ?case
    by (cases ls) auto
qed

lemma strip_cr_row: "spec_row_of row piece \<Longrightarrow> strip_cr piece = row"
  by (auto simp: spec_row_of_def strip_cr_def)

lemma row_of_strip_cr: "spec_row_of (strip_cr piece) piece"
proof (cases "piece \<noteq> [] \<and> last piece = 0x0D")
  case True
  then have "piece = butlast piece @ [0x0D]"
    by (metis append_butlast_last_id)
  with True show ?thesis
    by (simp add: spec_row_of_def strip_cr_def)
next
  case False
  then show ?thesis
    by (auto simp: spec_row_of_def strip_cr_def)
qed

lemma text_lines_spec_rows: "spec_rows t pieces rows \<Longrightarrow> text_lines t = rows"
proof -
  assume rows: "spec_rows t pieces rows"
  then have "split 0x0A t = pieces"
    by (simp add: spec_rows_def split_spec_join_lines)
  moreover have "map strip_cr pieces = rows"
    using rows unfolding spec_rows_def
    by (auto simp: list_all2_conv_all_nth strip_cr_row intro: nth_equalityI)
  ultimately show ?thesis
    by (simp add: text_lines_def)
qed

lemma spec_rows_text_lines: "spec_rows t (split 0x0A t) (text_lines t)"
  unfolding spec_rows_def text_lines_def
  by (auto simp: split_nonempty spec_join_lines_split list_all2_conv_all_nth row_of_strip_cr
      dest: split_no_separator)

lemma spec_rows_nonempty: "spec_rows t pieces rows \<Longrightarrow> rows \<noteq> []"
  by (auto simp: spec_rows_def dest: list_all2_lengthD)

lemma columns_of_rows:
  "spec_rows t pieces rows \<Longrightarrow> math_max (map length (text_lines t)) = Max (set (map length rows))"
  using columns_eq_Max [of t] by (simp add: text_lines_spec_rows del: set_map)


section \<open>Computing with the arithmetic of the examples\<close>

lemma find_scale_numeral:
  "find_scale (numeral k) a s =
     (if a * s < 2 ^ 52 then find_scale (pred_numeral k) a (2 * s)
      else if 2 ^ 53 \<le> a * s then find_scale (pred_numeral k) a (s / 2)
      else s)"
  by (simp add: numeral_eq_Suc)

lemmas double_eval =
  double_arith_def to_double_def find_scale_numeral nearest_even_def Let_def

text \<open>
  The numerals \<open>0.1\<close> and \<open>1.2\<close> are the doubles nearest to them, and
  \<open>3 * 0.1\<close> is not \<open>0.3\<close>, as in JavaScript.
\<close>

lemma double_literals:
  "js_lit double_arith 0.1 = 3602879701896397 / 36028797018963968"
  "js_lit double_arith 1.2 = 5404319552844595 / 4503599627370496"
  "js_lit double_arith 2.5 = 5 / 2"
  "js_mul double_arith (num double_arith 3) (js_lit double_arith 0.1) =
     1351079888211149 / 4503599627370496"
  by (simp_all add: double_eval)

lemma example_rows:
  "spec_rows text_two_rows [js ''ab'' @ [0x0D], js ''c'' @ [0x0D]] [js ''ab'', js ''c'']"
  "spec_rows (js ''abc'') [js ''abc''] [js ''abc'']"
  "spec_rows (js ''A'') [js ''A''] [js ''A'']"
  "spec_rows (js ''0123456789'') [js ''0123456789''] [js ''0123456789'']"
  "spec_rows [] [[]] [[]]"
  by code_simp+



section \<open>The intensity renderer\<close>

text \<open>
  C1, as stated: every character of \<open>lightChars\<close> has brightness \<open>255 - 10 * i\<close> at its
  position \<open>i\<close>. The second entry, \<open>#\<close>, has 240 and not 245: the later statement
  \<open>map['#'] = 240\<close> overwrites the value of the loop.
\<close>

theorem light_chars_brightness_counterexample:
  "lightChars ! 1 = ch CHR ''#'' \<and> charMap (ch CHR ''#'') = 240 \<and> 240 \<noteq> (255 - 10 * 1 :: int)"
  by code_simp

text \<open>
  C1, amended: the characters of \<open>lightChars\<close> that no later statement assigns again
  (\<open>$\<close>, \<open>%\<close>, \<open>&\<close> and the four block glyphs), and \<open>@\<close>, assigned 255 again, have
  brightness \<open>255 - 10 * i\<close>; \<open>#\<close>, \<open>*\<close>, \<open>+\<close>, \<open>=\<close> and \<open>~\<close> have the values of
  their later assignments, 240, 220, 160, 200 and 130.
\<close>

theorem light_chars_brightness:
  "map charMap lightChars =
     [255 - 10 * 0, 240, 255 - 10 * 2, 255 - 10 * 3, 255 - 10 * 4, 220, 160, 200, 130,
      255 - 10 * 9, 255 - 10 * 10, 255 - 10 * 11, 255 - 10 * 12]"
  by code_simp

text \<open>
  C3: white space has brightness 0. Space, tab and line feed have; the carriage return
  is not in the table and gets \<open>13\<close> from its code. A carriage return that is not the
  last character of its line reaches the lookup: the text \<open>a\rb\<close> is one row whose
  second cell holds it.
\<close>

theorem carriage_return_brightness:
  "charMap (ch CHR '' '') = 0 \<and> charMap 0x09 = 0 \<and> charMap 0x0A = 0 \<and> charMap 0x0D = 13 \<and>
   text_lines (js ''a'' @ [0x0D] @ js ''b'') = [js ''a'' @ [0x0D] @ js ''b''] \<and>
   char_at (js ''a'' @ [0x0D] @ js ''b'') 1 = 0x0D"
  by code_simp



text \<open>
  The fills of \<open>convert\<close>: after the background, one block for each cell, row by row;
  the block of the cell in column \<open>x\<close> of row \<open>y\<close> is fill number
  \<open>1 + y * columns + x\<close>.
\<close>

lemma draw_row_shape:
  "\<exists>bs. draw_row A cfg line y xs done = done @ bs \<and> length bs = length xs \<and>
        (\<forall>i<length xs. \<exists>previous. bs ! i = draw_block A cfg previous line y (xs ! i))"
proof (induction xs arbitrary: "done")
  case Nil
  show ?case by simp
next
  case (Cons x xs)
  let ?b = "draw_block A cfg (style (last done)) line y x"
  from Cons [of "done @ [?b]"] obtain bs where
    bs: "draw_row A cfg line y xs (done @ [?b]) = (done @ [?b]) @ bs" "length bs = length xs"
      "\<forall>i<length xs. \<exists>previous. bs ! i = draw_block A cfg previous line y (xs ! i)"
    by blast
  have "\<exists>previous. (?b # bs) ! i = draw_block A cfg previous line y ((x # xs) ! i)"
    if "i < length (x # xs)" for i
    using that bs(3) by (cases i) auto
  with bs(1,2) show ?case
    by (intro exI [of _ "?b # bs"]) simp
qed

lemma draw_rows_shape:
  "\<exists>bs. draw_rows A cfg lines w ys done = done @ bs \<and> length bs = length ys * w \<and>
        (\<forall>j<length ys. \<forall>x<w. \<exists>previous.
           bs ! (j * w + x) = draw_block A cfg previous (lines ! (ys ! j)) (ys ! j) x)"
proof (induction ys arbitrary: "done")
  case Nil
  show ?case by simp
next
  case (Cons y ys)
  obtain row where
    row: "draw_row A cfg (lines ! y) y [0..<w] done = done @ row" "length row = w"
      "\<forall>x<w. \<exists>previous. row ! x = draw_block A cfg previous (lines ! y) y x"
    using draw_row_shape [of A cfg "lines ! y" y "[0..<w]" "done"] by auto
  from Cons [of "done @ row"] obtain bs where
    bs: "draw_rows A cfg lines w ys (done @ row) = (done @ row) @ bs" "length bs = length ys * w"
      "\<forall>j<length ys. \<forall>x<w. \<exists>previous.
         bs ! (j * w + x) = draw_block A cfg previous (lines ! (ys ! j)) (ys ! j) x"
    by blast
  have "\<exists>previous. (row @ bs) ! (j * w + x) =
          draw_block A cfg previous (lines ! ((y # ys) ! j)) ((y # ys) ! j) x"
    if "j < length (y # ys)" "x < w" for j x
  proof (cases j)
    case 0
    with that row show ?thesis by (simp add: nth_append)
  next
    case (Suc k)
    with that row(2) bs(3) show ?thesis by (simp add: nth_append)
  qed
  with row(1,2) bs(1,2) show ?case
    by (intro exI [of _ "row @ bs"]) simp
qed

lemma convert_cell:
  assumes "y < length (text_lines t)" "x < math_max (map length (text_lines t))"
  shows "\<exists>previous.
     fills (convert A lib cfg t) ! (1 + y * math_max (map length (text_lines t)) + x) =
       draw_block A cfg previous (text_lines t ! y) y x"
proof -
  let ?lines = "text_lines t" and ?w = "math_max (map length (text_lines t))"
  let ?bg = "\<lparr> style = Css (backgroundColor cfg), rect_x = num A 0, rect_y = num A 0,
      rect_w = js_mul A (js_mul A (num A ?w) (pixelSize cfg)) (scale cfg),
      rect_h = js_mul A (js_mul A (num A (length ?lines)) (pixelSize cfg)) (scale cfg) \<rparr>"
  obtain bs where
    bs: "draw_rows A cfg ?lines ?w [0..<length ?lines] [?bg] = [?bg] @ bs"
      "\<forall>j<length [0..<length ?lines]. \<forall>x<?w. \<exists>previous.
         bs ! (j * ?w + x) =
           draw_block A cfg previous (?lines ! ([0..<length ?lines] ! j)) ([0..<length ?lines] ! j) x"
    using draw_rows_shape [of A cfg ?lines ?w "[0..<length ?lines]" "[?bg]"] by auto
  from bs(2) assms obtain previous where
    "bs ! (y * ?w + x) = draw_block A cfg previous (?lines ! y) y x"
    by force
  moreover have "fills (convert A lib cfg t) = ?bg # bs"
    using bs(1) by (simp add: convert_def Let_def)
  ultimately show ?thesis by auto
qed

text \<open>
  C7: in monochrome mode the block of every cell is filled with the foreground colour
  when the cell's intensity is strictly greater than 128 and with the background colour
  otherwise; at exactly 128 it is the background colour.
\<close>

theorem monochrome_threshold:
  assumes "colorMode cfg = ''monochrome''"
    and "y < length (text_lines t)" and "x < Max (set (map length (text_lines t)))"
  shows "style (fills (convert A lib cfg t) ! (1 + y * Max (set (map length (text_lines t))) + x)) =
      Css (if 128 < charMap (char_at (text_lines t ! y) x)
           then foregroundColor cfg else backgroundColor cfg) \<and>
    cell_style A cfg previous c intensity =
      Css (if 128 < intensity then foregroundColor cfg else backgroundColor cfg) \<and>
    cell_style A cfg previous c 128 = Css (backgroundColor cfg)"
proof -
  have mono: "cell_style A cfg p d i =
      Css (if 128 < i then foregroundColor cfg else backgroundColor cfg)" for p d i
    using assms(1) by (simp add: cell_style_def)
  obtain p where "fills (convert A lib cfg t) ! (1 + y * Max (set (map length (text_lines t))) + x) =
      draw_block A cfg p (text_lines t ! y) y x"
    using convert_cell [of y t x A lib cfg] assms(2,3) by (auto simp only: columns_eq_Max)
  then show ?thesis
    by (simp add: draw_block_def Let_def mono)
qed

text \<open>
  With the default colours: U+0080 has intensity exactly 128 and its block has the
  background colour, \<open>@\<close> has 255 and its block has the foreground colour.
\<close>

theorem monochrome_threshold_witness:
  "colorMode monochrome_defaults = ''monochrome'' \<and>
   0 < length (text_lines text_threshold) \<and>
   1 < Max (set (map length (text_lines text_threshold))) \<and>
   charMap (char_at (text_lines text_threshold ! 0) 0) = 128 \<and>
   style (fills (convert double_arith plain_lib monochrome_defaults text_threshold) ! 1) =
     Css ''#000000'' \<and>
   charMap (char_at (text_lines text_threshold ! 0) 1) = 255 \<and>
   style (fills (convert double_arith plain_lib monochrome_defaults text_threshold) ! 2) =
     Css ''#ffffff''"
proof -
  have mode: "colorMode monochrome_defaults = ''monochrome''"
    by (simp add: monochrome_defaults_def AsciiToImage_def str_or_def)
  have colours: "backgroundColor monochrome_defaults = ''#000000''"
    "foregroundColor monochrome_defaults = ''#ffffff''"
    by (simp_all add: monochrome_defaults_def AsciiToImage_def str_or_def)
  have rows: "text_lines text_threshold = [[0x80, ch CHR ''@'']]"
    by code_simp
  have brightness: "charMap 0x80 = 128" "charMap 0x40 = 255"
    by code_simp+
  have size: "0 < length (text_lines text_threshold)"
    "0 < Max (set (map length (text_lines text_threshold)))"
    "1 < Max (set (map length (text_lines text_threshold)))"
    by (simp_all add: rows)
  show ?thesis
    using monochrome_threshold [OF mode size(1) size(2), where A = double_arith
        and lib = plain_lib and previous = "Css []" and c = 0 and intensity = 0]
      monochrome_threshold [OF mode size(1) size(3), where A = double_arith
        and lib = plain_lib and previous = "Css []" and c = 0 and intensity = 0] size
    by (simp add: mode colours rows brightness char_at_def numeral_2_eq_2)
qed


section \<open>The glyph renderer\<close>

text \<open>
  Reading the font table at single keys. The statements after \<open>font['o']\<close> only touch
  \<open>O\<close>, \<open>x\<close>, \<open>X\<close> and the box drawing characters.
\<close>

lemma font_upto_o_lookups:
  "font_upto_o w h (ch CHR ''O'') = Some (pattern w h tpl_O)"
  "font_upto_o w h (ch CHR ''X'') = Some (pattern w h tpl_X)"
  "font_upto_o w h (ch CHR ''o'') = Some (pattern w h tpl_o)"
  "font_upto_o w h (ch CHR ''.'') = Some (pattern w h tpl_dot)"
  "font_upto_o w h (ch CHR ''a'') = None"
  by (simp_all add: font_upto_o_def assign_def)

lemma font_table_lookups:
  "font_table w h (ch CHR ''O'') = font_upto_o w h (ch CHR ''o'')"
  "font_table w h (ch CHR ''o'') = font_upto_o w h (ch CHR ''o'')"
  "font_table w h (ch CHR ''X'') = Some (pattern w h tpl_x)"
  "font_table w h (ch CHR ''x'') = Some (pattern w h tpl_x)"
  "font_table w h (ch CHR ''.'') = font_upto_o w h (ch CHR ''.'')"
  "font_table w h (ch CHR ''a'') = font_upto_o w h (ch CHR ''a'')"
  by (simp_all add: font_table_def font_upto_X_def assign_def Let_def)

text \<open>The keys of the font table are exactly the characters it assigns.\<close>

lemma dom_font_upto_o:
  "dom (font_upto_o w h) =
     set [ch CHR '' '', 0x09, 0x0A, 0x0D, ch CHR ''A'', ch CHR ''B'', ch CHR ''C'',
      ch CHR ''D'', ch CHR ''E'', ch CHR ''F'', ch CHR ''G'', ch CHR ''H'',
      ch CHR ''I'', ch CHR ''J'', ch CHR ''K'', ch CHR ''L'', ch CHR ''M'',
      ch CHR ''N'', ch CHR ''O'', ch CHR ''P'', ch CHR ''Q'', ch CHR ''R'',
      ch CHR ''S'', ch CHR ''T'', ch CHR ''U'', ch CHR ''V'', ch CHR ''W'',
      ch CHR ''X'', ch CHR ''Y'', ch CHR ''Z'', ch CHR ''0'', ch CHR ''1'',
      ch CHR ''2'', ch CHR ''3'', ch CHR ''4'', ch CHR ''5'', ch CHR ''6'',
      ch CHR ''7'', ch CHR ''8'', ch CHR ''9'', ch CHR ''.'', ch CHR '','',
      ch CHR '':'', ch CHR '';'', 0x0027, 0x0022, 0x0060, ch CHR ''!'',
      ch CHR ''?'', ch CHR ''-'', ch CHR ''_'', ch CHR ''='', ch CHR ''+'',
      ch CHR ''*'', ch CHR ''/'', 0x005C, ch CHR ''|'', ch CHR ''('', ch CHR '')'',
      ch CHR ''['', ch CHR '']'', ch CHR ''{'', ch CHR ''}'', ch CHR ''<'',
      ch CHR ''>'', ch CHR ''@'', ch CHR ''#'', ch CHR ''$'', ch CHR ''%'',
      ch CHR ''&'', ch CHR ''^'', ch CHR ''~'', ch CHR ''o'']"
  unfolding font_upto_o_def dom_assign by simp

lemma dom_font_table: "dom (font_table w h) = set font_keys"
proof -
  have o: "font_upto_o w h (ch CHR ''o'') \<noteq> None"
    unfolding font_upto_o_lookups by simp
  have "dom (font_table w h) = insert (ch CHR ''X'') (insert (ch CHR ''x'') (insert (ch CHR ''O'') (dom (font_upto_o w h)))) \<union> set [0x2500, 0x2502, 0x250C, 0x2510, 0x2514, 0x2518, 0x251C, 0x2524, 0x252C,
      0x2534, 0x253C, 0x2550, 0x2551, 0x2554, 0x2557, 0x255A, 0x255D, 0x2560,
      0x2563, 0x2566, 0x2569, 0x256C]"
    using o unfolding font_table_def font_upto_X_def Let_def dom_assign
    by (auto simp: dom_def assign_def)
  then show ?thesis
    unfolding dom_font_upto_o font_keys_def by auto
qed

lemma glyph_values:
  "pattern 5 7 tpl_dot =
     [[False, False, False, False, False], [False, False, False, False, False],
      [False, False, False, False, False], [False, False, False, False, False],
      [False, False, False, False, False], [False, False, True, False, False],
      [False, False, True, False, False]]"
  "pattern 5 7 tpl_O \<noteq> pattern 5 7 tpl_o"
  "pattern 5 7 tpl_X \<noteq> pattern 5 7 tpl_x"
  by code_simp+

lemma canvas_defaults_fields:
  "cv_pixelSize canvas_defaults = 5 / 2" "cv_scale canvas_defaults = 1"
  "charWidth canvas_defaults = 5" "charHeight canvas_defaults = 7"
  "lineColor canvas_defaults = ''#ff0000''"
  by (simp_all add: canvas_defaults_def AsciiToCanvas_def num_or_def str_or_def double_eval)

lemma text_lines_A: "text_lines (js ''A'') = [[ch CHR ''A'']]"
  by code_simp

lemma cell_metrics_defaults:
  "cell_metrics double_arith canvas_defaults None =
     \<lparr> charPixelWidth = 25 / 2, charPixelHeight = 35 / 2, lineHeight = 35 / 2 \<rparr>"
  by (simp add: cell_metrics_def canvas_defaults_fields double_eval)

text \<open>
  With a grid 3 wide and the pixel size 0.1 a cell is 0.30000000000000004 wide and
  0.7000000000000001 high, as in JavaScript.
\<close>

lemma canvas_tenth_fields:
  "cv_pixelSize canvas_tenth = 3602879701896397 / 36028797018963968" "cv_scale canvas_tenth = 1"
  "charWidth canvas_tenth = 3" "charHeight canvas_tenth = 7"
  by (simp_all add: canvas_tenth_def AsciiToCanvas_def num_or_def double_eval)

lemma cell_metrics_tenth:
  "cell_metrics double_arith canvas_tenth None =
     \<lparr> charPixelWidth = 1351079888211149 / 4503599627370496,
       charPixelHeight = 6305039478318695 / 9007199254740992,
       lineHeight = 6305039478318695 / 9007199254740992 \<rparr>"
  by (simp add: cell_metrics_def canvas_tenth_fields double_eval)

text \<open>
  C2, as stated: the grid of \<open>.\<close> has exactly one cell on. It has two, in column 2 of
  the last two rows.
\<close>

theorem dot_glyph_counterexample:
  "pixelFont 5 7 (ch CHR ''.'') ! 5 ! 2 \<and> pixelFont 5 7 (ch CHR ''.'') ! 6 ! 2 \<and>
   length (filter (\<lambda>b. b) (concat (pixelFont 5 7 (ch CHR ''.'')))) = 2"
  unfolding pixelFont_def font_table_lookups font_upto_o_lookups
  by (simp add: glyph_values)

text \<open>
  C2, amended: with the default 5 columns and 7 rows the pattern of \<open>.\<close> is a grid of
  7 rows of 5 cells with exactly two cells on, row 5 column 2 and row 6 column 2 (counted
  from 0); every other cell is off.
\<close>

theorem dot_glyph:
  "pixelFont 5 7 (ch CHR ''.'') =
     [[False, False, False, False, False],
      [False, False, False, False, False],
      [False, False, False, False, False],
      [False, False, False, False, False],
      [False, False, False, False, False],
      [False, False, True, False, False],
      [False, False, True, False, False]]"
  unfolding pixelFont_def font_table_lookups font_upto_o_lookups
  by (simp add: glyph_values)


text \<open>
  C5: a character that is not a key of the brightness table has brightness
  \<open>min(255, code mod 256)\<close>, and a character that is not a key of the font table has
  the grid of \<open>charHeight\<close> rows of \<open>charWidth\<close> cells that are all off.
\<close>

theorem unknown_character_fallback:
  "(charMap_table c = None \<longrightarrow> charMap c = min 255 (uint c mod 256)) \<and>
   (font_table w h c = None \<longrightarrow> pixelFont w h c = replicate h (replicate w False))"
  by (simp add: charMap_def pixelFont_def emptyPattern_def)

text \<open>The letter \<open>a\<close> is in neither table: brightness 97 and an empty 7 by 5 grid.\<close>

theorem unknown_character_fallback_witness:
  "charMap_table (ch CHR ''a'') = None \<and> charMap (ch CHR ''a'') = 97 \<and>
   font_table 5 7 (ch CHR ''a'') = None \<and>
   pixelFont 5 7 (ch CHR ''a'') = replicate 7 (replicate 5 False)"
proof -
  have absent: "charMap_table (ch CHR ''a'') = None"
    by code_simp
  have no_glyph: "font_table 5 7 (ch CHR ''a'') = None"
    unfolding font_table_lookups font_upto_o_lookups by simp
  show ?thesis
    using unknown_character_fallback [of "ch CHR ''a''" 5 7] absent no_glyph
    by (simp only: simp_thms) simp
qed

lemma foldl_appending:
  "(\<And>d x. f d x = d @ g x) \<Longrightarrow> foldl f done xs = done @ concat (map g xs)"
  by (induction xs arbitrary: "done") simp_all

lemma render_cell_appends:
  "render_cell A cfg m line y done x = done @ render_cell A cfg m line y [] x"
  by (simp add: render_cell_def Let_def)

lemma render_line_appends:
  "render_line A cfg m lines w done y =
     done @ concat (map (render_cell A cfg m (lines ! y) y []) [0..<w])"
  unfolding render_line_def
  by (rule foldl_appending) (rule render_cell_appends)

text \<open>The fills of a canvas are the fills of its cells, row by row.\<close>

lemma createCanvas_rects:
  "createCanvas A cfg t el = Some cv \<Longrightarrow>
     rects cv =
       concat (map (\<lambda>y. concat (map (render_cell A cfg (cell_metrics A cfg el)
                                          (text_lines t ! y) y [])
                                     [0..<math_max (map length (text_lines t))]))
                   [0..<length (text_lines t)])"
proof -
  assume cv: "createCanvas A cfg t el = Some cv"
  let ?m = "cell_metrics A cfg el" and ?lines = "text_lines t"
  let ?w = "math_max (map length ?lines)"
  have "foldl (render_line A cfg ?m ?lines ?w) [] [0..<length ?lines] =
      [] @ concat (map (\<lambda>y. concat (map (render_cell A cfg ?m (?lines ! y) y []) [0..<?w]))
                       [0..<length ?lines])"
    by (rule foldl_appending) (rule render_line_appends)
  with cv show ?thesis
    by (auto simp: createCanvas_def Let_def split: if_splits)
qed

text \<open>
  C8: for a cell that holds a space, a tab, a line feed or a carriage return, the loop
  body issues no \<open>fillRect\<close>: the fills done so far are the fills done after the cell,
  and the cell adds nothing to the fills of the canvas.
\<close>

theorem whitespace_cell_draws_nothing:
  "char_at line x \<in> {ch CHR '' '', 0x09, 0x0A, 0x0D} \<Longrightarrow>
     render_cell A cfg m line y done x = done \<and> render_cell A cfg m line y [] x = []"
  by (auto simp: render_cell_def is_skipped_def Let_def)

theorem whitespace_cell_draws_nothing_witness:
  "char_at [0x09] 0 \<in> {ch CHR '' '', 0x09, 0x0A, 0x0D} \<and>
   render_cell double_arith canvas_defaults (cell_metrics double_arith canvas_defaults None)
     [0x09] 0 [(0, 0, 1, 1)] 0 = [(0, 0, 1, 1)]"
proof -
  have cell: "char_at [0x09] 0 \<in> {ch CHR '' '', 0x09, 0x0A, 0x0D}"
    by (simp add: char_at_def)
  show ?thesis
    using whitespace_cell_draws_nothing [OF cell, of double_arith canvas_defaults
        "cell_metrics double_arith canvas_defaults None" 0 "[(0, 0, 1, 1)]"] cell
    by simp
qed

text \<open>The size that \<open>createCanvas\<close> sets, for a text with columns.\<close>

lemma createCanvas_size:
  "math_max (map length (text_lines t)) \<noteq> 0 \<Longrightarrow>
     map_option canvas_width (createCanvas A cfg t el) =
       Some (js_ceil A
               (js_mul A (num A (math_max (map length (text_lines t))))
                  (charPixelWidth (cell_metrics A cfg el)))) \<and>
     map_option canvas_height (createCanvas A cfg t el) =
       Some (js_ceil A
               (js_add A
                  (js_mul A (js_sub A (num A (length (text_lines t))) (num A 1))
                     (lineHeight (cell_metrics A cfg el)))
                  (charPixelHeight (cell_metrics A cfg el))))"
  using text_lines_nonempty [of t] by (simp add: createCanvas_def Let_def)

text \<open>
  C4, as stated: the canvas is \<open>columns * cellWidth\<close> wide. With the default
  configuration a cell is 12.5 wide, and the canvas of the one-character text \<open>A\<close>
  is 13 wide.
\<close>

theorem glyph_canvas_size_counterexample:
  "map_option canvas_width (createCanvas double_arith canvas_defaults (js ''A'') None) =
     Some 13 \<and>
   js_mul double_arith (num double_arith (Max (set (map length (text_lines (js ''A''))))))
     (charPixelWidth (cell_metrics double_arith canvas_defaults None)) = 25 / 2 \<and>
   (13 :: real) \<noteq> 25 / 2"
proof -
  have columns: "math_max (map length (text_lines (js ''A''))) = 1"
    "Max (set (map length (text_lines (js ''A'')))) = 1"
    by (simp_all add: text_lines_A)
  have cell: "js_mul double_arith (num double_arith 1) (25 / 2) = 25 / 2"
    by (simp add: double_eval)
  have up: "js_ceil double_arith (25 / 2) = 13"
    by (simp add: double_arith_def)
  have "map_option canvas_width (createCanvas double_arith canvas_defaults (js ''A'') None) =
      Some 13"
    using createCanvas_size [of "js ''A''" double_arith canvas_defaults None]
    by (simp only: columns cell_metrics_defaults metrics.simps cell up)
  then show ?thesis
    by (simp only: columns cell_metrics_defaults metrics.simps cell) simp
qed

text \<open>
  C4, amended: for a text without columns \<open>createCanvas\<close> returns \<open>null\<close>. For every
  other text it returns a canvas whose width is set to
  \<open>Math.ceil(columns * cellWidth)\<close> and whose height is set to
  \<open>Math.ceil((rows - 1) * lineHeight + cellHeight)\<close>, the rows being the pieces of the
  text between line feeds, each without one trailing carriage return, the columns the
  greatest length of a row, and the operations those of the code.
\<close>

theorem glyph_canvas_size:
  assumes "spec_rows t pieces rows"
  shows "(Max (set (map length rows)) = 0 \<longrightarrow> createCanvas A cfg t el = None) \<and>
    (0 < Max (set (map length rows)) \<longrightarrow>
      (\<exists>cv. createCanvas A cfg t el = Some cv \<and>
         canvas_width cv =
           js_ceil A
             (js_mul A (num A (Max (set (map length rows))))
                (charPixelWidth (cell_metrics A cfg el))) \<and>
         canvas_height cv =
           js_ceil A
             (js_add A
                (js_mul A (js_sub A (num A (length rows)) (num A 1))
                   (lineHeight (cell_metrics A cfg el)))
                (charPixelHeight (cell_metrics A cfg el)))))"
proof -
  have rows: "text_lines t = rows"
    using assms by (rule text_lines_spec_rows)
  have columns: "math_max (map length (text_lines t)) = Max (set (map length rows))"
    using assms by (rule columns_of_rows)
  have some: "rows \<noteq> []"
    using assms by (rule spec_rows_nonempty)
  show ?thesis
    unfolding createCanvas_def Let_def columns using some by (simp add: rows)
qed

text \<open>
  The empty text has one empty row and no canvas. With the default configuration the
  canvas of \<open>A\<close> is 13 wide and 18 high. With a grid 3 wide and the pixel size 0.1 the
  canvas of a row of ten characters is 4 wide, since \<open>10 * 0.30000000000000004\<close> is
  3.0000000000000004 in JavaScript, and 1 high.
\<close>

theorem glyph_canvas_size_witness:
  "spec_rows [] [[]] [[]] \<and> Max (set (map length [[] :: jsstring])) = 0 \<and>
   createCanvas double_arith canvas_defaults [] None = None \<and>
   spec_rows (js ''A'') [js ''A''] [js ''A''] \<and> 0 < Max (set (map length [js ''A''])) \<and>
   (\<exists>cv. createCanvas double_arith canvas_defaults (js ''A'') None = Some cv \<and>
      canvas_width cv = 13 \<and> canvas_height cv = 18) \<and>
   spec_rows (js ''0123456789'') [js ''0123456789''] [js ''0123456789''] \<and>
   0 < Max (set (map length [js ''0123456789''])) \<and>
   (\<exists>cv. createCanvas double_arith canvas_tenth (js ''0123456789'') None = Some cv \<and>
      canvas_width cv = 4 \<and> canvas_height cv = 1)"
proof -
  have lengths: "Max (set (map length [[] :: jsstring])) = 0"
    "Max (set (map length [js ''A''])) = 1" "length [js ''A''] = 1"
    "Max (set (map length [js ''0123456789''])) = 10" "length [js ''0123456789''] = 1"
    by (simp_all add: js_def)
  have empty: "createCanvas double_arith canvas_defaults [] None = None"
    using glyph_canvas_size [OF example_rows(5), of double_arith canvas_defaults None]
    by (simp only: lengths)
  have default: "\<exists>cv. createCanvas double_arith canvas_defaults (js ''A'') None = Some cv \<and>
      canvas_width cv = 13 \<and> canvas_height cv = 18"
    using glyph_canvas_size [OF example_rows(3), of double_arith canvas_defaults None]
    by (simp only: lengths cell_metrics_defaults) (simp add: double_eval)
  have tenth: "\<exists>cv. createCanvas double_arith canvas_tenth (js ''0123456789'') None = Some cv \<and>
      canvas_width cv = 4 \<and> canvas_height cv = 1"
    using glyph_canvas_size [OF example_rows(4), of double_arith canvas_tenth None]
    by (simp only: lengths cell_metrics_tenth) (simp add: double_eval)
  show ?thesis
    using empty default tenth example_rows(3,4,5) by (simp only: lengths) simp
qed


section \<open>Markup extraction\<close>

lemma first_group_simps [simp]:
  "first_group [] = None" "first_group ((r, g) # ms) = Some g"
  by (simp_all add: first_group_def)

lemma first_group_append:
  "first_group (xs @ ys) = (case first_group xs of None \<Rightarrow> first_group ys | Some g \<Rightarrow> Some g)"
  by (cases xs) (auto simp: first_group_def)

lemma first_group_None: "first_group xs = None \<longleftrightarrow> xs = []"
  by (cases xs) (auto simp: first_group_def)

text \<open>Folding the case leaves every character that is not a letter alone.\<close>

lemma canonicalize_fixed:
  "k < 0x41 \<or> 0x5A < k \<Longrightarrow> k < 0x61 \<or> 0x7A < k \<Longrightarrow> canonicalize c = k \<longleftrightarrow> c = k"
  unfolding canonicalize_def by (auto; unat_arith)

lemma canonicalize_gt: "canonicalize c = 0x3E \<longleftrightarrow> c = 0x3E"
  by (rule canonicalize_fixed) simp_all

lemma same_char_gt: "same_char True 0x3E c \<longleftrightarrow> c = 0x3E"
  using canonicalize_gt [where c = c] by (simp add: same_char_def canonicalize_def)

lemma accepts_except_gt: "accepts True (Except (0x3E)) c \<longleftrightarrow> c \<noteq> 0x3E"
  using canonicalize_gt [where c = c] by (simp add: same_char_def canonicalize_def)

lemma accepts_lit_gt: "accepts True (Lit (0x3E)) c \<longleftrightarrow> c = 0x3E"
  using canonicalize_gt [where c = c] by (simp add: same_char_def canonicalize_def)

lemma accepts_quote: "accepts True (OneOf [0x22, 0x27]) c \<longleftrightarrow> c = 0x22 \<or> c = 0x27"
  using canonicalize_fixed [where k = "0x22" and c = c] canonicalize_fixed [where k = "0x27" and c = c]
  by (simp add: same_char_def canonicalize_def)

text \<open>
  What each stretch of the two patterns does: a run of literal characters, the tag up to
  its \<open>>\<close>, the lazy body up to the closing tag, the class attribute.
\<close>

lemma matches_lits:
  "matches True (lits p @ r) s opened g =
     (if spec_starts_with p s then matches True r (drop (length p) s) opened g else [])"
proof (induction p arbitrary: s)
  case Nil
  then show ?case by (simp add: lits_def)
next
  case (Cons a p)
  then show ?case by (cases s) (auto simp: lits_def same_char_def)
qed


lemma matches_to_gt:
  "matches True (Star (Except (0x3E)) # One (Lit (0x3E)) # r) s opened g =
     (case dropWhile (\<lambda>c. c \<noteq> 0x3E) s of
        [] \<Rightarrow> []
      | _ # inside \<Rightarrow> matches True r inside opened g)"
proof (induction s)
  case Nil
  show ?case by simp
next
  case (Cons c s)
  show ?case
  proof (cases "c = 0x3E")
    case True
    then show ?thesis
      by (simp only: matches.simps accepts_except_gt accepts_lit_gt dropWhile.simps) simp
  next
    case False
    then show ?thesis
      using Cons.IH
      by (simp only: matches.simps accepts_except_gt accepts_lit_gt dropWhile.simps) simp
  qed
qed

lemma matches_lazy_body:
  "first_group (matches True (LazyStar AnyChar # GroupClose # lits p) s (Some (before @ s)) g) =
     map_option (\<lambda>b. Some (before @ b)) (spec_text_before p s)"
proof (induction s arbitrary: before)
  case Nil
  show ?case
    using matches_lits [of p "[]" "[]" "Some before" "Some before"]
    by (simp split: if_splits)
next
  case (Cons c s)
  have here: "matches True (lits p) (c # s) (Some (before @ c # s)) (Some before) =
      (if spec_starts_with p (c # s)
       then [(drop (length p) (c # s), Some before)] else [])"
    using matches_lits [of p "[]" "c # s" "Some (before @ c # s)" "Some before"]
    by simp
  show ?case
  proof (cases "spec_starts_with p (c # s)")
    case True
    then show ?thesis
      by (simp add: here)
  next
    case False
    then show ?thesis
      using Cons.IH [of "before @ [c]"]
      by (simp add: here option.map_comp comp_def)
  qed
qed

lemma first_group_tag_rest:
  "first_group (matches True tag_rest t opened g) =
     (case dropWhile (\<lambda>c. c \<noteq> 0x3E) t of
        [] \<Rightarrow> None
      | _ # inside \<Rightarrow> map_option Some (spec_text_before ''</pre>'' inside))"
proof -
  have body: "first_group
      (matches True (LazyStar AnyChar # GroupClose # lits ''</pre>'') inside (Some inside) g) =
      map_option Some (spec_text_before ''</pre>'' inside)" for inside
    using matches_lazy_body [of "''</pre>''" inside "[]" g] by simp
  show ?thesis
    unfolding tag_rest_def
    by (simp add: matches_to_gt body split: list.split del: dropWhile_eq_Nil_conv)
qed

lemma tag_rest_skip:
  "c \<noteq> 0x3E \<Longrightarrow>
     first_group (matches True tag_rest (c # t) opened g) =
     first_group (matches True tag_rest t opened g)"
  by (simp add: first_group_tag_rest)


lemma literal_lengths: "length ''class='' = 6" "length ''ascii'' = 5" "length ''<pre'' = 4"
  by simp_all

lemma matches_quote:
  "matches True (One (OneOf [0x22, 0x27]) # r) s opened g =
     (if spec_quote_first s then matches True r (drop 1 s) opened g else [])"
  using accepts_quote by (cases s) (simp_all add: spec_quote_first_def)

lemma matches_class_attr:
  "matches True (class_attr @ r) t opened g =
     (if spec_class_here t then matches True r (drop 13 t) opened g else [])"
proof -
  let ?q = "One (OneOf [0x22, 0x27])"
  have "matches True (class_attr @ r) t opened g =
        matches True (lits ''class='' @ (?q # lits ''ascii'' @ (?q # r))) t opened g"
    by (simp add: class_attr_def)
  also have "\<dots> =
        (if spec_starts_with ''class='' t
         then matches True (?q # lits ''ascii'' @ (?q # r)) (drop 6 t) opened g else [])"
    by (simp only: matches_lits literal_lengths)
  also have "matches True (?q # lits ''ascii'' @ (?q # r)) (drop 6 t) opened g =
        (if spec_quote_first (drop 6 t)
         then matches True (lits ''ascii'' @ (?q # r)) (drop 7 t) opened g else [])"
    by (simp only: matches_quote drop_drop) simp
  also have "matches True (lits ''ascii'' @ (?q # r)) (drop 7 t) opened g =
        (if spec_starts_with ''ascii'' (drop 7 t)
         then matches True (?q # r) (drop 12 t) opened g else [])"
    by (simp only: matches_lits drop_drop literal_lengths) simp
  also have "matches True (?q # r) (drop 12 t) opened g =
        (if spec_quote_first (drop 12 t) then matches True r (drop 13 t) opened g else [])"
    by (simp only: matches_quote drop_drop) simp
  finally show ?thesis
    by (simp add: spec_class_here_def)
qed

lemma starts_with_skip:
  "spec_starts_with p t \<Longrightarrow> \<forall>x\<in>set p. canonicalize (of_char x) \<noteq> (0x3E :: jschar) \<Longrightarrow>
     length p = n \<Longrightarrow>
     dropWhile (\<lambda>c. c \<noteq> 0x3E) t = dropWhile (\<lambda>c. c \<noteq> 0x3E) (drop n t)"
proof (induction p t arbitrary: n rule: spec_starts_with.induct)
  case (3 p ps c s)
  have "c \<noteq> 0x3E"
  proof
    assume "c = 0x3E"
    with "3.prems" have "canonicalize (of_char p) = (0x3E :: jschar)"
      by (simp add: canonicalize_def)
    with "3.prems" show False by simp
  qed
  with 3 show ?case by (cases n) auto
qed auto

lemma quote_skip:
  "spec_quote_first t \<Longrightarrow>
     dropWhile (\<lambda>c. c \<noteq> 0x3E) t = dropWhile (\<lambda>c. c \<noteq> 0x3E) (drop 1 t)"
  by (cases t) (auto simp: spec_quote_first_def)

lemma class_here_skip:
  assumes "spec_class_here t"
  shows "dropWhile (\<lambda>c. c \<noteq> 0x3E) t = dropWhile (\<lambda>c. c \<noteq> 0x3E) (drop 13 t)"
proof -
  let ?d = "dropWhile (\<lambda>c. c \<noteq> (0x3E :: jschar))"
  from assms have a: "spec_starts_with ''class='' t" "spec_quote_first (drop 6 t)"
    "spec_starts_with ''ascii'' (drop 7 t)" "spec_quote_first (drop 12 t)"
    by (simp_all add: spec_class_here_def)
  have "?d t = ?d (drop 6 t)"
    by (rule starts_with_skip [OF a(1) _ literal_lengths(1)]) (simp add: canonicalize_def)
  also have "\<dots> = ?d (drop 7 t)"
    using quote_skip [OF a(2)] by simp
  also have "\<dots> = ?d (drop 5 (drop 7 t))"
    by (rule starts_with_skip [OF a(3) _ literal_lengths(2)]) (simp add: canonicalize_def)
  also have "\<dots> = ?d (drop 12 t)"
    by simp
  also have "\<dots> = ?d (drop 13 t)"
    using quote_skip [OF a(4)] by simp
  finally show ?thesis .
qed


text \<open>
  The greedy \<open>[^>]*\<close> before the class attribute: wherever in the opening tag the
  attribute is found, the tag ends at the same \<open>>\<close>, so the first match is the one of
  the plain pattern.
\<close>

lemma first_group_ascii_tag:
  "first_group (matches True (Star (Except 0x3E) # class_attr @ tag_rest) t opened g) =
     (if spec_has_ascii_class t then first_group (matches True tag_rest t opened g) else None)"
proof (induction t)
  case Nil
  show ?case
    by (simp add: matches_class_attr spec_class_here_def)
next
  case (Cons c t)
  have here: "first_group (matches True (class_attr @ tag_rest) (c # t) opened g) =
      (if spec_class_here (c # t) then first_group (matches True tag_rest (c # t) opened g)
       else None)"
    using class_here_skip [of "c # t"]
    by (simp add: matches_class_attr first_group_tag_rest)
  show ?case
  proof (cases "c = 0x3E")
    case True
    have no_class: "\<not> spec_class_here (c # t)"
      using True by (simp add: spec_class_here_def canonicalize_def)
    then have no_attr: "\<not> spec_has_ascii_class (c # t)"
      using True by simp
    have stop: "same_char True 0x3E c"
      using True by (simp add: same_char_gt)
    show ?thesis
      by (simp add: stop here no_class no_attr del: spec_has_ascii_class.simps)
  next
    case False
    then show ?thesis
      using Cons.IH tag_rest_skip [OF False, of t opened g]
      by (simp add: same_char_gt first_group_append here split: option.split)
  qed
qed


text \<open>The two searches of \<open>extractFromHtml\<close> find the specification's blocks.\<close>

lemma pre_ascii_re_parts:
  "pre_ascii_re = lits ''<pre'' @ (Star (Except 0x3E) # class_attr @ tag_rest)"
  by (simp add: pre_ascii_re_def class_attr_def tag_rest_def)

lemma pre_re_parts: "pre_re = lits ''<pre'' @ tag_rest"
  by (simp add: pre_re_def tag_rest_def)

lemma first_group_pre_ascii_re:
  "first_group (matches True pre_ascii_re s None None) =
     map_option Some (spec_block_here spec_has_ascii_class s)"
  unfolding pre_ascii_re_parts matches_lits literal_lengths spec_block_here_def
  by (simp add: first_group_ascii_tag first_group_tag_rest split: list.split
      del: dropWhile_eq_Nil_conv)

lemma first_group_pre_re:
  "first_group (matches True pre_re s None None) =
     map_option Some (spec_block_here (\<lambda>_. True) s)"
  unfolding pre_re_parts matches_lits literal_lengths spec_block_here_def
  by (simp add: first_group_tag_rest split: list.split del: dropWhile_eq_Nil_conv)

lemma match_group1_first_block:
  assumes "\<And>s. first_group (matches True re s None None) = map_option Some (spec_block_here P s)"
  shows "match_group1 True re s = map_option Some (spec_first_block P s)"
proof (induction s)
  case Nil
  show ?case
    using assms [of "[]"] by (auto simp: first_group_def split: list.splits)
next
  case (Cons c s)
  show ?case
    using assms [of "c # s"] Cons.IH
    by (auto simp: first_group_def split: list.splits option.splits)
qed

lemma block_here_weaken:
  "spec_block_here P s = Some body \<Longrightarrow> spec_block_here (\<lambda>_. True) s = Some body"
  by (auto simp: spec_block_here_def split: if_splits)

lemma first_block_weaken:
  "spec_first_block (\<lambda>_. True) s = None \<Longrightarrow> spec_first_block P s = None"
proof (induction s)
  case Nil
  then show ?case
    using block_here_weaken [of P "[]"] by (cases "spec_block_here P []") auto
next
  case (Cons c s)
  then show ?case
    using block_here_weaken [of P "c # s"]
    by (cases "spec_block_here P (c # s)") (auto split: option.splits)
qed

text \<open>
  C9, as stated: the contents of the block are returned. For
  \<open><pre class='ascii'>&lt;</pre>\<close> the contents are \<open>&lt;\<close> and the result is \<open><\<close>:
  \<open>extractFromHtml\<close> returns \<open>stripHtml\<close> of the contents.
\<close>

theorem markup_extraction_counterexample:
  "spec_ascii_block html_entity = Some (js ''&lt;'') \<and>
   extractFromHtml html_entity = Inr (js ''<'') \<and> js ''<'' \<noteq> js ''&lt;''"
  by code_simp

text \<open>
  C9, amended: when the text has a block \<open><pre ... class="ascii" ...>...</pre>\<close>, in
  any case of letters, the result is the contents of the first such block after
  \<open>stripHtml\<close> (tags replaced by a space, the six entities decoded); when it has none
  but has a block \<open><pre ...>...</pre>\<close>, the result is the contents of the first one
  after \<open>stripHtml\<close>; when it has no block at all, the error "No ASCII art found" is
  thrown and no value is returned.
\<close>

theorem markup_extraction:
  "(spec_ascii_block html = Some body \<longrightarrow> extractFromHtml html = Inr (stripHtml body)) \<and>
   (spec_ascii_block html = None \<and> spec_pre_block html = Some body \<longrightarrow>
      extractFromHtml html = Inr (stripHtml body)) \<and>
   (spec_pre_block html = None \<longrightarrow> extractFromHtml html = Inl NoAsciiArtFound)"
proof -
  have first: "match_group1 True pre_ascii_re html = map_option Some (spec_ascii_block html)"
    unfolding spec_ascii_block_def
    by (rule match_group1_first_block) (rule first_group_pre_ascii_re)
  have second: "match_group1 True pre_re html = map_option Some (spec_pre_block html)"
    unfolding spec_pre_block_def
    by (rule match_group1_first_block) (rule first_group_pre_re)
  have none: "spec_pre_block html = None \<Longrightarrow> spec_ascii_block html = None"
    unfolding spec_pre_block_def spec_ascii_block_def by (rule first_block_weaken)
  show ?thesis
    using none by (auto simp: extractFromHtml_def first second strip_group_def)
qed

text \<open>
  One document for each case: an upper-case block of class \<open>ascii\<close> after a plain
  block, two plain blocks with an entity in the first, and no block.
\<close>

theorem markup_extraction_witness:
  "spec_ascii_block html_upper = Some (js ''X'' @ [0x0A] @ js ''Y'') \<and>
   extractFromHtml html_upper = Inr (js ''X'' @ [0x0A] @ js ''Y'') \<and>
   spec_ascii_block html_plain = None \<and> spec_pre_block html_plain = Some (js ''a&amp;b'') \<and>
   extractFromHtml html_plain = Inr (js ''a&b'') \<and>
   spec_pre_block html_none = None \<and> extractFromHtml html_none = Inl NoAsciiArtFound"
proof -
  have blocks: "spec_ascii_block html_upper = Some (js ''X'' @ [0x0A] @ js ''Y'')"
    "spec_ascii_block html_plain = None" "spec_pre_block html_plain = Some (js ''a&amp;b'')"
    "spec_pre_block html_none = None"
    by code_simp+
  have stripped: "stripHtml (js ''X'' @ [0x0A] @ js ''Y'') = js ''X'' @ [0x0A] @ js ''Y''"
    "stripHtml (js ''a&amp;b'') = js ''a&b''"
    by code_simp+
  show ?thesis
    using markup_extraction [of html_upper "js ''X'' @ [0x0A] @ js ''Y''"]
      markup_extraction [of html_plain "js ''a&amp;b''"]
      markup_extraction [of html_none "[]"]
    by (simp only: blocks stripped)
qed

end
